theory Spec2Isabelle
  imports Main "HOL-Library.Word"
begin

section \<open>qdl.c: device acquisition and flash orchestration\<close>

text \<open>
  The program talks to the outside world through system calls, libxml2 and the protocol
  engines of the other translation units (\<open>patch_load\<close>, \<open>program_load\<close>,
  \<open>sahara_run\<close>, \<open>firehose_run\<close>). The model makes every such call explicit:
  each call appends an event to the trace of the run, and its result is looked up in an
  environment record whose fields take the trace of everything that happened before the call.
  An environment is therefore any deterministic outside world, including one whose answers
  change with time or with the calls made so far.

  The loaders and the protocol engines are taken to return to their caller with an
  \<open>int\<close>, as their declarations and their contracts say; what they do inside is not
  part of this translation unit. Return values and descriptors are \<open>int\<close>: the
  program compares them with zero and never computes with them.
\<close>

subsection \<open>Constants of the system headers\<close>

definition EINVAL :: int where "EINVAL = 22"
definition ENOENT :: int where "ENOENT = 2"

text \<open>\<open>PATH_MAX\<close> of \<open>limits.h\<close> on Linux.\<close>
definition PATH_MAX :: nat where "PATH_MAX = 4096"

text \<open>The anonymous enum at the top of qdl.c.\<close>
definition QDL_FILE_UNKNOWN :: int where "QDL_FILE_UNKNOWN = 0"
definition QDL_FILE_PATCH :: int where "QDL_FILE_PATCH = 1"
definition QDL_FILE_PROGRAM :: int where "QDL_FILE_PROGRAM = 2"
definition QDL_FILE_CONTENTS :: int where "QDL_FILE_CONTENTS = 3"

text \<open>Line feed, carriage return and the terminating byte of a C string.\<close>
definition NL :: char where "NL = CHR 0x0A"
definition CR :: char where "CR = CHR 0x0D"
definition NUL :: char where "NUL = CHR 0x00"
definition DQ :: char where "DQ = CHR 0x22"

subsection \<open>Data\<close>

text \<open>
  \<open>struct termios\<close> as laid out by the Linux headers; the flag words are
  \<open>tcflag_t\<close> (32 bit), \<open>c_cc\<close> has \<open>NCCS = 32\<close> bytes.
\<close>

record termios =
  c_iflag :: "32 word"
  c_oflag :: "32 word"
  c_cflag :: "32 word"
  c_lflag :: "32 word"
  c_line :: "8 word"
  c_cc :: "8 word list"
  c_ispeed :: "32 word"
  c_ospeed :: "32 word"

definition IGNPAR :: "32 word" where "IGNPAR = 0x4"
definition CS8 :: "32 word" where "CS8 = 0x30"
definition CREAD :: "32 word" where "CREAD = 0x80"
definition CLOCAL :: "32 word" where "CLOCAL = 0x800"
definition B115200 :: "32 word" where "B115200 = 0x1002"
definition CRTSCTS :: "32 word" where "CRTSCTS = 0x80000000"

text \<open>A parsed document: libxml2's node tree, reduced to element names and children.\<close>

datatype xmlNode = XmlNode (name: string) (children: "xmlNode list")

datatype xmlDoc = XmlDoc (xmlDocGetRootElement: xmlNode)

datatype oflag = O_RDONLY | O_RDWR | O_NOCTTY | O_EXCL | O_DIRECTORY

text \<open>
  One event per call that leaves the translation unit. \<open>Err\<close>, \<open>Errx\<close> and
  \<open>Warn\<close> are the functions of \<open>err.h\<close>, with the formatted message (the
  program name and the \<open>errno\<close> text they add are left out).
\<close>

datatype event =
    Set_qdl_debug
  | Xml_read_file string
  | Xml_free_doc
  | Fprintf_stderr string
  | Printf string
  | Fflush_stdout
  | Sleep nat
  | Patch_load string
  | Program_load string
  | Open_path string "oflag list"
  | Fdopendir int
  | Readdir "string option"
  | Openat int string "oflag list"
  | Read_fd int nat
  | Close int
  | Closedir
  | Warn string
  | Err int string
  | Errx int string
  | Tcgetattr int
  | Tcflush int
  | Tcsetattr int termios
  | Sahara_run int string
  | Firehose_run int

type_synonym trace = "event list"

text \<open>A call that ends the process (\<open>err\<close>, \<open>errx\<close>) carries the exit status.\<close>

datatype exit = Exit int

text \<open>
  The outside world. Every field takes the trace before the call and the call's arguments.
  \<^item> \<open>xmlReadFile\<close>: the parsed document, \<open>None\<close> for \<open>NULL\<close>;
  \<^item> \<open>sys_fdopendir\<close>: the names \<open>readdir\<close> will deliver, in order,
    \<open>None\<close> for \<open>NULL\<close>;
  \<^item> \<open>sys_read\<close>: the bytes delivered, \<open>None\<close> for a negative return;
  \<^item> \<open>sys_tcgetattr\<close>: the return value and what is stored through the pointer;
  \<^item> \<open>indeterminate\<close>: the contents of an automatic \<open>char\<close> array before
    the first write to it.
\<close>

record env =
  progname :: string
  indeterminate :: string
  xmlReadFile :: "trace \<Rightarrow> string \<Rightarrow> xmlDoc option"
  patch_load :: "trace \<Rightarrow> string \<Rightarrow> int"
  program_load :: "trace \<Rightarrow> string \<Rightarrow> int"
  sys_open :: "trace \<Rightarrow> string \<Rightarrow> oflag list \<Rightarrow> int"
  sys_fdopendir :: "trace \<Rightarrow> int \<Rightarrow> string list option"
  sys_openat :: "trace \<Rightarrow> int \<Rightarrow> string \<Rightarrow> oflag list \<Rightarrow> int"
  sys_read :: "trace \<Rightarrow> int \<Rightarrow> nat \<Rightarrow> string option"
  sys_tcgetattr :: "trace \<Rightarrow> int \<Rightarrow> int \<times> termios"
  sys_tcsetattr :: "trace \<Rightarrow> int \<Rightarrow> termios \<Rightarrow> int"
  sahara_run :: "trace \<Rightarrow> int \<Rightarrow> string \<Rightarrow> int"
  firehose_run :: "trace \<Rightarrow> int \<Rightarrow> int"

subsection \<open>detect_type\<close>

definition detect_type :: "env \<Rightarrow> string \<Rightarrow> trace \<Rightarrow> int \<times> trace" where
  "detect_type env xml_file tr =
     (case xmlReadFile env tr xml_file of
        None \<Rightarrow>
          (- EINVAL,
           tr @ [Xml_read_file xml_file,
                 Fprintf_stderr (''[PATCH] failed to parse '' @ xml_file @ [NL])])
      | Some doc \<Rightarrow>
          (let root = xmlDocGetRootElement doc;
               type = (if name root = ''patches'' then QDL_FILE_PATCH
                       else if name root = ''data'' then QDL_FILE_PROGRAM
                       else if name root = ''contents'' then QDL_FILE_CONTENTS
                       else QDL_FILE_UNKNOWN)
           in (type, tr @ [Xml_read_file xml_file, Xml_free_doc])))"

subsection \<open>readat\<close>

text \<open>
  The value of a \<open>char\<close> array as a C string: the bytes before the first \<open>NUL\<close>.
  \<open>strcspn s reject\<close> is the length of the longest prefix of \<open>s\<close> free of the
  bytes of \<open>reject\<close>.
\<close>

definition c_str :: "string \<Rightarrow> string" where
  "c_str bytes = takeWhile (\<lambda>c. c \<noteq> NUL) bytes"

definition strcspn :: "string \<Rightarrow> string \<Rightarrow> nat" where
  "strcspn s reject = length (takeWhile (\<lambda>c. c \<notin> set reject) s)"

text \<open>
  \<open>readat dir name buf len\<close> returns the return value and the string in \<open>buf\<close>
  afterwards. \<open>read\<close> is asked for \<open>len - 1\<close> bytes and delivers at most that many;
  the subtraction is one of \<open>size_t\<close> (64 bit), so a \<open>len\<close> of zero asks for
  \<open>SIZE_MAX\<close> bytes. \<open>buf[n] = 0\<close> ends the string after the bytes read, and the
  second assignment cuts it at the first line feed.
\<close>

definition SIZE_MAX :: nat where "SIZE_MAX = 2 ^ 64 - 1"

definition readat :: "env \<Rightarrow> int \<Rightarrow> string \<Rightarrow> string \<Rightarrow> nat \<Rightarrow> trace \<Rightarrow> (int \<times> string) \<times> trace" where
  "readat env dir nm buf len tr =
     (let fd = sys_openat env tr dir nm [O_RDONLY];
          tr1 = tr @ [Openat dir nm [O_RDONLY]];
          count = (if len = 0 then SIZE_MAX else len - 1)
      in if fd < 0 then ((fd, buf), tr1)
         else
           (case sys_read env tr1 fd count of
              None \<Rightarrow>
                ((- EINVAL, buf),
                 tr1 @ [Read_fd fd count, Warn (''failed to read '' @ nm), Close fd])
            | Some bytes \<Rightarrow>
                (let buf1 = c_str (take count bytes);
                     buf2 = take (strcspn buf1 [NL]) buf1
                 in ((0, buf2), tr1 @ [Read_fd fd count, Close fd]))))"

subsection \<open>find_qdl_tty\<close>

text \<open>
  The automatic variables of \<open>find_qdl_tty\<close> that live across iterations of the
  \<open>readdir\<close> loop, and the caller's buffer \<open>dev_name\<close>.
\<close>

record scan_state =
  found :: int
  dev_name :: string
  vid :: string
  pid :: string

text \<open>\<open>snprintf(dev_name, dev_name_len, "/dev/%s", d_name)\<close>: the output is cut to fit.\<close>

definition snprintf_dev :: "nat \<Rightarrow> string \<Rightarrow> string \<Rightarrow> string" where
  "snprintf_dev dev_name_len d_name old =
     (if dev_name_len = 0 then old else take (dev_name_len - 1) (''/dev/'' @ d_name))"

text \<open>
  The body of the \<open>while\<close> loop for the entry \<open>d_name\<close> just delivered by
  \<open>readdir\<close>; \<open>continue\<close> and \<open>goto close_fd\<close> end it early.
\<close>

definition find_qdl_tty_body ::
    "env \<Rightarrow> int \<Rightarrow> nat \<Rightarrow> string \<Rightarrow> scan_state \<Rightarrow> trace \<Rightarrow> scan_state \<times> trace" where
  "find_qdl_tty_body env tty dev_name_len d_name s tr =
     (if take 6 d_name \<noteq> ''ttyUSB'' then (s, tr)
      else
        (let fd = sys_openat env tr tty d_name [O_DIRECTORY];
             tr1 = tr @ [Openat tty d_name [O_DIRECTORY]]
         in if fd < 0 then (s, tr1)
            else
              (case readat env fd ''../../../../idVendor'' (vid s) 5 tr1 of
                 ((ret, v), tr2) \<Rightarrow>
                   if ret < 0 then (s\<lparr>vid := v\<rparr>, tr2 @ [Close fd])
                   else
                     (case readat env fd ''../../../../idProduct'' (pid s) 5 tr2 of
                        ((ret, p), tr3) \<Rightarrow>
                          if ret < 0 then (s\<lparr>vid := v, pid := p\<rparr>, tr3 @ [Close fd])
                          else if v \<noteq> ''05c6'' \<or> p \<noteq> ''9008''
                          then (s\<lparr>vid := v, pid := p\<rparr>, tr3 @ [Close fd])
                          else (s\<lparr>vid := v, pid := p,
                                  dev_name := snprintf_dev dev_name_len d_name (dev_name s),
                                  found := 0\<rparr>,
                                tr3 @ [Close fd])))))"

text \<open>The loop itself: one \<open>readdir\<close> per round, until it delivers \<open>NULL\<close>.\<close>

fun find_qdl_tty_loop ::
    "env \<Rightarrow> int \<Rightarrow> nat \<Rightarrow> string list \<Rightarrow> scan_state \<Rightarrow> trace \<Rightarrow> scan_state \<times> trace" where
  "find_qdl_tty_loop env tty dev_name_len [] s tr = (s, tr @ [Readdir None])"
| "find_qdl_tty_loop env tty dev_name_len (d_name # rest) s tr =
     (case find_qdl_tty_body env tty dev_name_len d_name s (tr @ [Readdir (Some d_name)]) of
        (s1, tr1) \<Rightarrow> find_qdl_tty_loop env tty dev_name_len rest s1 tr1)"

text \<open>
  \<open>find_qdl_tty\<close> returns \<open>found\<close> and the contents of the caller's buffer, or
  ends the process through \<open>err\<close>.
\<close>

definition find_qdl_tty ::
    "env \<Rightarrow> string \<Rightarrow> nat \<Rightarrow> trace \<Rightarrow> (exit + int \<times> string) \<times> trace" where
  "find_qdl_tty env dev_name0 dev_name_len tr =
     (let tty = sys_open env tr ''/sys/class/tty'' [O_DIRECTORY];
          tr1 = tr @ [Open_path ''/sys/class/tty'' [O_DIRECTORY]]
      in if tty < 0 then (Inl (Exit 1), tr1 @ [Err 1 ''failed to open /sys/class/tty''])
         else
           (case sys_fdopendir env tr1 tty of
              None \<Rightarrow>
                (Inl (Exit 1), tr1 @ [Fdopendir tty, Err 1 ''failed to opendir /sys/class/tty''])
            | Some entries \<Rightarrow>
                (case find_qdl_tty_loop env tty dev_name_len entries
                        \<lparr>found = - ENOENT, dev_name = dev_name0,
                         vid = indeterminate env, pid = indeterminate env\<rparr>
                        (tr1 @ [Fdopendir tty]) of
                   (s, tr2) \<Rightarrow> (Inr (found s, dev_name s), tr2 @ [Closedir, Close tty]))))"

subsection \<open>tty_open\<close>

text \<open>The configuration \<open>tty_open\<close> installs: \<open>memset\<close> to zero, then three fields.\<close>

definition tios_zero :: termios where
  "tios_zero = \<lparr>c_iflag = 0, c_oflag = 0, c_cflag = 0, c_lflag = 0, c_line = 0,
                c_cc = replicate 32 0, c_ispeed = 0, c_ospeed = 0\<rparr>"

definition tios_new :: termios where
  "tios_new = tios_zero\<lparr>c_cflag := or B115200 (or CRTSCTS (or CS8 (or CLOCAL CREAD))),
                         c_iflag := IGNPAR, c_oflag := 0\<rparr>"

text \<open>
  The part of \<open>tty_open\<close> after the retry loop: open the device node, save its
  configuration, install the new one. It returns the descriptor and the saved configuration.
\<close>

definition tty_open_path :: "env \<Rightarrow> string \<Rightarrow> trace \<Rightarrow> (exit + int \<times> termios) \<times> trace" where
  "tty_open_path env path tr =
     (let fd = sys_open env tr path [O_RDWR, O_NOCTTY, O_EXCL];
          tr1 = tr @ [Open_path path [O_RDWR, O_NOCTTY, O_EXCL]]
      in if fd < 0 then (Inl (Exit 1), tr1 @ [Err 1 (''unable to open '' @ [DQ] @ path @ [DQ])])
         else
           (case sys_tcgetattr env tr1 fd of
              (ret, old) \<Rightarrow>
                (let tr2 = tr1 @ [Tcgetattr fd]
                 in if ret < 0
                    then (Inl (Exit 1),
                          tr2 @ [Err 1 (''unable to retrieve '' @ [DQ] @ path @ [DQ] @ '' tios'')])
                    else
                      (let tr3 = tr2 @ [Tcflush fd];
                           ret1 = sys_tcsetattr env tr3 fd tios_new;
                           tr4 = tr3 @ [Tcsetattr fd tios_new]
                       in if ret1 < 0
                          then (Inl (Exit 1),
                                tr4 @ [Err 1 (''unable to update '' @ [DQ] @ path @ [DQ] @ '' tios'')])
                          else (Inr (fd, old), tr4)))))"

text \<open>
  \<open>tty_open\<close> from the label \<open>retry\<close>, with the current contents of \<open>path\<close>.
  The loop has no bound: \<open>None\<close> is the run that never leaves it.
\<close>

partial_function (option) tty_open_retry ::
    "env \<Rightarrow> string \<Rightarrow> trace \<Rightarrow> ((exit + int \<times> termios) \<times> trace) option" where
  "tty_open_retry env path tr =
     (case find_qdl_tty env path PATH_MAX tr of
        (Inl e, tr1) \<Rightarrow> Some (Inl e, tr1)
      | (Inr (ret, path1), tr1) \<Rightarrow>
          if ret < 0
          then tty_open_retry env path1
                 (tr1 @ [Printf (''Waiting for QDL tty...'' @ [CR]), Fflush_stdout, Sleep 1])
          else Some (tty_open_path env path1 tr1))"

definition tty_open :: "env \<Rightarrow> trace \<Rightarrow> ((exit + int \<times> termios) \<times> trace) option" where
  "tty_open env tr = tty_open_retry env (indeterminate env) tr"

subsection \<open>main\<close>

text \<open>The body of the \<open>for\<close> loop over the descriptor files, for \<open>argv[i]\<close>.\<close>

definition load_file :: "env \<Rightarrow> string \<Rightarrow> trace \<Rightarrow> (exit + unit) \<times> trace" where
  "load_file env arg tr =
     (case detect_type env arg tr of
        (type, tr1) \<Rightarrow>
          if type < 0 \<or> type = QDL_FILE_UNKNOWN
          then (Inl (Exit 1), tr1 @ [Errx 1 (''failed to detect file type of '' @ arg @ [NL])])
          else if type = QDL_FILE_PATCH
          then (let ret = patch_load env tr1 arg;
                    tr2 = tr1 @ [Patch_load arg]
                in if ret < 0
                   then (Inl (Exit 1), tr2 @ [Errx 1 (''patch_load '' @ arg @ '' failed'')])
                   else (Inr (), tr2))
          else if type = QDL_FILE_PROGRAM
          then (let ret = program_load env tr1 arg;
                    tr2 = tr1 @ [Program_load arg]
                in if ret < 0
                   then (Inl (Exit 1), tr2 @ [Errx 1 (''program_load '' @ arg @ '' failed'')])
                   else (Inr (), tr2))
          else (Inl (Exit 1), tr1 @ [Errx 1 (arg @ '' type not yet supported'')]))"

fun load_files :: "env \<Rightarrow> string list \<Rightarrow> trace \<Rightarrow> (exit + unit) \<times> trace" where
  "load_files env [] tr = (Inr (), tr)"
| "load_files env (arg # args) tr =
     (case load_file env arg tr of
        (Inl e, tr1) \<Rightarrow> (Inl e, tr1)
      | (Inr u, tr1) \<Rightarrow> load_files env args tr1)"

text \<open>
  The statements of \<open>main\<close> from \<open>sahara_run\<close> to \<open>return 0\<close>, with the
  descriptor \<open>fd\<close> and the configuration \<open>tios\<close> that \<open>tty_open\<close> saved.
\<close>

definition run_and_restore :: "env \<Rightarrow> int \<Rightarrow> termios \<Rightarrow> string \<Rightarrow> trace \<Rightarrow> int \<times> trace" where
  "run_and_restore env fd tios prog_mbn tr =
     (let ret = sahara_run env tr fd prog_mbn;
          tr1 = tr @ [Sahara_run fd prog_mbn]
      in case (if ret < 0 then (ret, tr1)
               else (firehose_run env tr1 fd, tr1 @ [Firehose_run fd])) of
           (ret, tr2) \<Rightarrow>
             (let ret = sys_tcsetattr env tr2 fd tios;
                  tr3 = tr2 @ [Tcsetattr fd tios];
                  tr4 = (if ret < 0 then tr3 @ [Warn ''unable to restore tios of ttyUSB1'']
                         else tr3)
              in (0, tr4 @ [Close fd])))"

text \<open>
  The leading \<open>--debug\<close>: \<open>argv++, argc--\<close> drops one entry of the argument
  vector (\<open>argc\<close> is its length) and the global flag is set.
\<close>

definition skip_debug :: "string list \<Rightarrow> string list \<times> trace" where
  "skip_debug argv0 =
     (if 2 \<le> length argv0 \<and> argv0 ! 1 = ''--debug''
      then (tl argv0, [Set_qdl_debug]) else (argv0, []))"

text \<open>
  \<open>main\<close> on the argument vector. The result is the exit status of the process and
  the trace of the run, \<open>None\<close> for a run that never ends.
\<close>

definition main :: "env \<Rightarrow> string list \<Rightarrow> (int \<times> trace) option" where
  "main env argv0 =
     (case skip_debug argv0 of
        (argv, tr0) \<Rightarrow>
          if length argv < 3
          then Some (1, tr0 @ [Fprintf_stderr
                        (progname env @ '' <prog.mbn> [<program> <patch> ...]'' @ [NL])])
          else
            (let prog_mbn = argv ! 1
             in case load_files env (drop 2 argv) tr0 of
                  (Inl (Exit st), tr1) \<Rightarrow> Some (st, tr1)
                | (Inr u, tr1) \<Rightarrow>
                    (case tty_open env tr1 of
                       None \<Rightarrow> None
                     | Some (Inl (Exit st), tr2) \<Rightarrow> Some (st, tr2)
                     | Some (Inr (fd, tios), tr2) \<Rightarrow>
                         if fd < 0 then Some (1, tr2 @ [Err 1 ''failed to open QDL tty''])
                         else Some (run_and_restore env fd tios prog_mbn tr2))))"

subsection \<open>Notions used in the statements\<close>

text \<open>
  The kind the specification assigns to a root element tag: three tags have a kind of
  their own, every other tag is unknown.
\<close>

definition kind_of_tag :: "string \<Rightarrow> int" where
  "kind_of_tag t =
     (case map_of [(''patches'', QDL_FILE_PATCH), (''data'', QDL_FILE_PROGRAM),
                   (''contents'', QDL_FILE_CONTENTS)] t of
        Some k \<Rightarrow> k
      | None \<Rightarrow> QDL_FILE_UNKNOWN)"

text \<open>The files handed to the parser and to the two loaders in a trace, in order.\<close>

fun classified :: "trace \<Rightarrow> string list" where
  "classified [] = []"
| "classified (Xml_read_file f # tr) = f # classified tr"
| "classified (e # tr) = classified tr"

fun loaded :: "trace \<Rightarrow> string list" where
  "loaded [] = []"
| "loaded (Patch_load f # tr) = f # loaded tr"
| "loaded (Program_load f # tr) = f # loaded tr"
| "loaded (e # tr) = loaded tr"

text \<open>The directory entries \<open>readdir\<close> delivered in a trace, in order.\<close>

fun visited :: "trace \<Rightarrow> string list" where
  "visited [] = []"
| "visited (Readdir (Some d) # tr) = d # visited tr"
| "visited (e # tr) = visited tr"

text \<open>
  Events of the classify-and-load phase, and events of device enumeration and of the
  transport: every system call on the device tree or the device node, the wait notice, the
  two protocol engines.
\<close>

fun is_load_event :: "event \<Rightarrow> bool" where
  "is_load_event (Xml_read_file f) = True"
| "is_load_event Xml_free_doc = True"
| "is_load_event (Fprintf_stderr m) = True"
| "is_load_event (Patch_load f) = True"
| "is_load_event (Program_load f) = True"
| "is_load_event (Errx n m) = True"
| "is_load_event e = False"

fun is_device_event :: "event \<Rightarrow> bool" where
  "is_device_event (Open_path p fl) = True"
| "is_device_event (Fdopendir fd) = True"
| "is_device_event (Readdir d) = True"
| "is_device_event (Openat fd nm fl) = True"
| "is_device_event (Read_fd fd n) = True"
| "is_device_event (Close fd) = True"
| "is_device_event Closedir = True"
| "is_device_event (Printf m) = True"
| "is_device_event Fflush_stdout = True"
| "is_device_event (Sleep n) = True"
| "is_device_event (Tcgetattr fd) = True"
| "is_device_event (Tcflush fd) = True"
| "is_device_event (Tcsetattr fd t) = True"
| "is_device_event (Sahara_run fd p) = True"
| "is_device_event (Firehose_run fd) = True"
| "is_device_event e = False"

text \<open>Events that \<open>tty_open\<close> can append.\<close>

fun is_acquire_event :: "event \<Rightarrow> bool" where
  "is_acquire_event (Open_path p fl) = True"
| "is_acquire_event (Fdopendir fd) = True"
| "is_acquire_event (Readdir d) = True"
| "is_acquire_event (Openat fd nm fl) = True"
| "is_acquire_event (Read_fd fd n) = True"
| "is_acquire_event (Close fd) = True"
| "is_acquire_event Closedir = True"
| "is_acquire_event (Warn m) = True"
| "is_acquire_event (Printf m) = True"
| "is_acquire_event Fflush_stdout = True"
| "is_acquire_event (Sleep n) = True"
| "is_acquire_event (Tcgetattr fd) = True"
| "is_acquire_event (Tcflush fd) = True"
| "is_acquire_event (Tcsetattr fd t) = True"
| "is_acquire_event (Err n m) = (m \<noteq> ''failed to open QDL tty'')"
| "is_acquire_event e = False"

text \<open>Calls that re-apply a line configuration or close a descriptor.\<close>

fun is_restore_event :: "event \<Rightarrow> bool" where
  "is_restore_event (Tcsetattr fd t) = True"
| "is_restore_event (Close fd) = True"
| "is_restore_event e = False"

text \<open>
  A descriptor file fails to classify when it does not parse or its root tag is none of the
  three known ones; it fails to load when it classifies as a patch or program file and
  the loader of its kind returns a negative value. The loader is called after the
  document has been parsed and freed.
\<close>

definition fails_to_classify :: "env \<Rightarrow> string \<Rightarrow> trace \<Rightarrow> bool" where
  "fails_to_classify env f tr =
     (case xmlReadFile env tr f of
        None \<Rightarrow> True
      | Some doc \<Rightarrow> name (xmlDocGetRootElement doc) \<notin> {''patches'', ''data'', ''contents''})"

definition fails_to_load :: "env \<Rightarrow> string \<Rightarrow> trace \<Rightarrow> bool" where
  "fails_to_load env f tr =
     (case xmlReadFile env tr f of
        None \<Rightarrow> False
      | Some doc \<Rightarrow>
          (name (xmlDocGetRootElement doc) = ''patches'' \<and>
             patch_load env (tr @ [Xml_read_file f, Xml_free_doc]) f < 0) \<or>
          (name (xmlDocGetRootElement doc) = ''data'' \<and>
             program_load env (tr @ [Xml_read_file f, Xml_free_doc]) f < 0))"

text \<open>
  A descriptor file is not yet supported when its root tag is \<open>contents\<close>. These three
  are the ways in which a descriptor file ends the run.
\<close>

definition not_yet_supported :: "env \<Rightarrow> string \<Rightarrow> trace \<Rightarrow> bool" where
  "not_yet_supported env f tr =
     (case xmlReadFile env tr f of
        None \<Rightarrow> False
      | Some doc \<Rightarrow> name (xmlDocGetRootElement doc) = ''contents'')"

text \<open>
  The token an attribute file yields: at most four bytes are read (the buffers hold five),
  and the token ends before the first line feed or \<open>NUL\<close> among them. \<open>None\<close>
  when the file cannot be opened or read.
\<close>

definition attr_token :: "env \<Rightarrow> int \<Rightarrow> string \<Rightarrow> trace \<Rightarrow> string option" where
  "attr_token env dir nm tr =
     (if sys_openat env tr dir nm [O_RDONLY] < 0 then None
      else map_option (\<lambda>bytes. takeWhile (\<lambda>c. c \<noteq> NL \<and> c \<noteq> NUL) (take 4 bytes))
             (sys_read env (tr @ [Openat dir nm [O_RDONLY]])
                (sys_openat env tr dir nm [O_RDONLY]) 4))"

text \<open>The trace after an attribute file below \<open>dir\<close> has been opened, read and closed.\<close>

definition after_attr :: "env \<Rightarrow> int \<Rightarrow> string \<Rightarrow> trace \<Rightarrow> trace" where
  "after_attr env dir nm tr =
     tr @ [Openat dir nm [O_RDONLY], Read_fd (sys_openat env tr dir nm [O_RDONLY]) 4,
           Close (sys_openat env tr dir nm [O_RDONLY])]"

text \<open>
  The entry \<open>d_name\<close> of the directory \<open>tty\<close>, examined after the trace \<open>tr\<close>,
  is a matching candidate: its name starts with \<open>ttyUSB\<close>, it can be opened, and its
  vendor and product tokens are exactly \<open>05c6\<close> and \<open>9008\<close>.
\<close>

definition candidate_matches :: "env \<Rightarrow> int \<Rightarrow> string \<Rightarrow> trace \<Rightarrow> bool" where
  "candidate_matches env tty d_name tr =
     (let fd = sys_openat env tr tty d_name [O_DIRECTORY];
          tr1 = tr @ [Openat tty d_name [O_DIRECTORY]]
      in take 6 d_name = ''ttyUSB'' \<and> 0 \<le> fd \<and>
         attr_token env fd ''../../../../idVendor'' tr1 = Some ''05c6'' \<and>
         attr_token env fd ''../../../../idProduct''
           (after_attr env fd ''../../../../idVendor'' tr1) = Some ''9008'')"

text \<open>
  The matching candidates among the entries \<open>ds\<close>, in enumeration order, each examined
  after the trace the scan has produced when it reaches the entry.
\<close>

fun scan_matches :: "env \<Rightarrow> int \<Rightarrow> nat \<Rightarrow> string list \<Rightarrow> scan_state \<Rightarrow> trace \<Rightarrow> string list" where
  "scan_matches env tty dev_name_len [] s tr = []"
| "scan_matches env tty dev_name_len (d_name # rest) s tr =
     (case find_qdl_tty_body env tty dev_name_len d_name s (tr @ [Readdir (Some d_name)]) of
        (s1, tr1) \<Rightarrow>
          (if candidate_matches env tty d_name (tr @ [Readdir (Some d_name)])
           then [d_name] else []) @
          scan_matches env tty dev_name_len rest s1 tr1)"

text \<open>The local state of \<open>find_qdl_tty\<close> when the loop starts.\<close>

definition scan_state0 :: "env \<Rightarrow> string \<Rightarrow> scan_state" where
  "scan_state0 env dev_name0 =
     \<lparr>found = - ENOENT, dev_name = dev_name0,
      vid = indeterminate env, pid = indeterminate env\<rparr>"

text \<open>The \<open>tcsetattr\<close> calls of a trace, in order: descriptor and configuration.\<close>

fun tcsetattrs :: "trace \<Rightarrow> (int \<times> termios) list" where
  "tcsetattrs [] = []"
| "tcsetattrs (Tcsetattr fd t # tr) = (fd, t) # tcsetattrs tr"
| "tcsetattrs (e # tr) = tcsetattrs tr"

text \<open>
  A trace without any \<open>tcsetattr\<close> call, or one that ends with the call that installs
  the new configuration and the \<open>err\<close> that follows its failure.
\<close>

fun is_err1 :: "event \<Rightarrow> bool" where
  "is_err1 (Err st m) = (st = 1)"
| "is_err1 e = False"

fun is_install :: "event \<Rightarrow> bool" where
  "is_install (Tcsetattr fd t) = (t = tios_new)"
| "is_install e = False"

definition failed_before_restore :: "trace \<Rightarrow> bool" where
  "failed_before_restore tr =
     (tcsetattrs tr = [] \<or>
      (2 \<le> length tr \<and> is_err1 (last tr) \<and> is_install (last (butlast tr)) \<and>
       tcsetattrs (butlast (butlast tr)) = []))"

text \<open>
  The transport of a run of \<open>main\<close>: the descriptor and the saved configuration that
  \<open>tty_open\<close> returns, and the trace at that moment. \<open>None\<close> when the run does not
  get that far: too few arguments, a descriptor file that ends the process, a
  \<open>tty_open\<close> that ends the process or never returns.
\<close>

definition acquisition :: "env \<Rightarrow> string list \<Rightarrow> (int \<times> termios \<times> trace) option" where
  "acquisition env argv0 =
     (case skip_debug argv0 of
        (argv, tr0) \<Rightarrow>
          if length argv < 3 then None
          else
            (case load_files env (drop 2 argv) tr0 of
               (Inl e, tr1) \<Rightarrow> None
             | (Inr u, tr1) \<Rightarrow>
                 (case tty_open env tr1 of
                    None \<Rightarrow> None
                  | Some (Inl e, tr2) \<Rightarrow> None
                  | Some (Inr (fd, tios), tr2) \<Rightarrow> Some (fd, tios, tr2))))"

text \<open>The firmware image argument of a run: \<open>argv[1]\<close> after a leading \<open>--debug\<close>.\<close>

definition prog_mbn_of :: "string list \<Rightarrow> string" where
  "prog_mbn_of argv0 = fst (skip_debug argv0) ! 1"

subsection \<open>A sample outside world\<close>

text \<open>
  Four descriptor files, and a device tree with one serial console, a USB serial adapter of
  another vendor, two devices in emergency download mode and one entry whose vendor file
  does not resolve. Descriptors are numbered so that every directory and attribute file has
  its own.
\<close>

definition tios_cooked :: termios where
  "tios_cooked = tios_zero\<lparr>c_iflag := 0x500, c_oflag := 0x5, c_cflag := 0xBD,
                            c_lflag := 0x8A3B\<rparr>"

definition sample_xml :: "string \<Rightarrow> xmlDoc option" where
  "sample_xml f =
     (if f = ''rawprogram0.xml'' then Some (XmlDoc (XmlNode ''data'' [XmlNode ''program'' []]))
      else if f = ''patch0.xml'' then Some (XmlDoc (XmlNode ''patches'' [XmlNode ''patch'' []]))
      else if f = ''contents.xml'' then Some (XmlDoc (XmlNode ''contents'' []))
      else if f = ''config.xml'' then Some (XmlDoc (XmlNode ''configuration'' []))
      else None)"

definition sample_openat :: "int \<Rightarrow> string \<Rightarrow> int" where
  "sample_openat dir nm =
     (if dir = 3 then
        (if nm = ''ttyUSB0'' then 10 else if nm = ''ttyUSB1'' then 11
         else if nm = ''ttyUSB2'' then 12 else if nm = ''ttyUSB3'' then 13 else - 1)
      else if dir \<in> {10, 11, 12} \<and> nm = ''../../../../idVendor'' then dir + 10
      else if dir \<in> {10, 11, 12} \<and> nm = ''../../../../idProduct'' then dir + 20
      else - 1)"

definition sample_read :: "int \<Rightarrow> string option" where
  "sample_read fd =
     (if fd = 20 then Some (''0403'' @ [NL]) else if fd = 30 then Some (''6001'' @ [NL])
      else if fd = 21 \<or> fd = 22 then Some (''05c6'' @ [NL])
      else if fd = 31 \<or> fd = 32 then Some (''9008'' @ [NL])
      else None)"

definition sample_env :: env where
  "sample_env =
     \<lparr>progname = ''qdl'', indeterminate = [],
      xmlReadFile = (\<lambda>tr f. sample_xml f),
      patch_load = (\<lambda>tr f. 0),
      program_load = (\<lambda>tr f. 0),
      sys_open = (\<lambda>tr p fl. if p = ''/sys/class/tty'' \<or> p = ''/dev/ttyUSB2'' then 3 else - 1),
      sys_fdopendir = (\<lambda>tr fd. Some [''ttyS0'', ''ttyUSB0'', ''ttyUSB1'', ''ttyUSB2'', ''ttyUSB3'']),
      sys_openat = (\<lambda>tr dir nm fl. sample_openat dir nm),
      sys_read = (\<lambda>tr fd n. sample_read fd),
      sys_tcgetattr = (\<lambda>tr fd. (0, tios_cooked)),
      sys_tcsetattr = (\<lambda>tr fd t. 0),
      sahara_run = (\<lambda>tr fd p. 0),
      firehose_run = (\<lambda>tr fd. 0)\<rparr>"

text \<open>
  The same world with a handshake that fails and a restoration that fails (the call that
  installs the new configuration succeeds: it is the first \<open>tcsetattr\<close> of the run).
\<close>

definition failing_env :: env where
  "failing_env =
     sample_env\<lparr>sahara_run := (\<lambda>tr fd p. - 1),
                 sys_tcsetattr := (\<lambda>tr fd t. if tcsetattrs tr = [] then 0 else - 1)\<rparr>"


definition closed_env :: env where
  "closed_env = sample_env\<lparr>sys_open := (\<lambda>tr p fl. - 1)\<rparr>"


text \<open>The scan of the sample device tree, and the run up to the acquired transport.\<close>

definition sample_scan_trace :: trace where
  "sample_scan_trace =
     [Open_path ''/sys/class/tty'' [O_DIRECTORY], Fdopendir 3,
      Readdir (Some ''ttyS0''), Readdir (Some ''ttyUSB0''),
      Openat 3 ''ttyUSB0'' [O_DIRECTORY],
      Openat 10 ''../../../../idVendor'' [O_RDONLY], Read_fd 20 4, Close 20,
      Openat 10 ''../../../../idProduct'' [O_RDONLY], Read_fd 30 4, Close 30,
      Close 10, Readdir (Some ''ttyUSB1''), Openat 3 ''ttyUSB1'' [O_DIRECTORY],
      Openat 11 ''../../../../idVendor'' [O_RDONLY], Read_fd 21 4, Close 21,
      Openat 11 ''../../../../idProduct'' [O_RDONLY], Read_fd 31 4, Close 31,
      Close 11, Readdir (Some ''ttyUSB2''), Openat 3 ''ttyUSB2'' [O_DIRECTORY],
      Openat 12 ''../../../../idVendor'' [O_RDONLY], Read_fd 22 4, Close 22,
      Openat 12 ''../../../../idProduct'' [O_RDONLY], Read_fd 32 4, Close 32,
      Close 12, Readdir (Some ''ttyUSB3''), Openat 3 ''ttyUSB3'' [O_DIRECTORY],
      Openat 13 ''../../../../idVendor'' [O_RDONLY], Close 13, Readdir None,
      Closedir, Close 3]"

definition sample_loaded :: trace where
  "sample_loaded =
     [Set_qdl_debug, Xml_read_file ''rawprogram0.xml'', Xml_free_doc,
      Program_load ''rawprogram0.xml'']"

definition sample_acquired :: trace where
  "sample_acquired =
     sample_loaded @ sample_scan_trace @
     [Open_path ''/dev/ttyUSB2'' [O_RDWR, O_NOCTTY, O_EXCL], Tcgetattr 3, Tcflush 3,
      Tcsetattr 3 tios_new]"

definition sample_argv :: "string list" where
  "sample_argv = [''qdl'', ''--debug'', ''prog.mbn'', ''rawprogram0.xml'']"




section \<open>Auxiliary facts\<close>

subsection \<open>Traces of the classify-and-load phase\<close>

lemma classified_append: "classified (a @ b) = classified a @ classified b"
  by (induction a rule: classified.induct) simp_all

lemma loaded_append: "loaded (a @ b) = loaded a @ loaded b"
  by (induction a rule: loaded.induct) simp_all

lemma visited_append: "visited (a @ b) = visited a @ visited b"
  by (induction a rule: visited.induct) simp_all

lemma tcsetattrs_append: "tcsetattrs (a @ b) = tcsetattrs a @ tcsetattrs b"
  by (induction a rule: tcsetattrs.induct) simp_all

lemma load_events_no_tcsetattr: "list_all is_load_event xs \<Longrightarrow> tcsetattrs xs = []"
  by (induction xs rule: tcsetattrs.induct) simp_all

lemma detect_type_trace:
  "detect_type env f tr = (ty, tr') \<Longrightarrow>
     \<exists>new. tr' = tr @ new \<and> list_all is_load_event new \<and> classified new = [f] \<and> loaded new = []"
  by (auto simp: detect_type_def Let_def split: option.splits)

lemma load_file_trace:
  "load_file env f tr = (r, tr') \<Longrightarrow>
     \<exists>new. tr' = tr @ new \<and> list_all is_load_event new \<and> classified new = [f] \<and>
       (case r of Inr u \<Rightarrow> loaded new = [f] | Inl e \<Rightarrow> e = Exit 1 \<and> (loaded new = [] \<or> loaded new = [f]))"
  by (auto simp: load_file_def detect_type_def Let_def split: option.splits if_splits)

lemma load_files_trace:
  "load_files env fs tr = (r, tr') \<Longrightarrow>
     \<exists>new. tr' = tr @ new \<and> list_all is_load_event new \<and>
       (case r of Inr u \<Rightarrow> classified new = fs \<and> loaded new = fs | Inl e \<Rightarrow> e = Exit 1)"
proof (induction fs arbitrary: tr)
  case Nil
  then show ?case by auto
next
  case (Cons f fs)
  obtain r1 tr1 where lf: "load_file env f tr = (r1, tr1)" by (cases "load_file env f tr")
  from load_file_trace[OF lf] obtain n1 where n1: "tr1 = tr @ n1" "list_all is_load_event n1"
    "classified n1 = [f]" "(case r1 of Inr u \<Rightarrow> loaded n1 = [f] | Inl e \<Rightarrow> e = Exit 1 \<and> (loaded n1 = [] \<or> loaded n1 = [f]))"
    by blast
  show ?case
  proof (cases r1)
    case (Inl e)
    with Cons.prems lf n1 show ?thesis by auto
  next
    case (Inr u)
    with Cons.prems lf have "load_files env fs tr1 = (r, tr')" by simp
    from Cons.IH[OF this] obtain n2 where n2: "tr' = tr1 @ n2" "list_all is_load_event n2"
      "(case r of Inr u \<Rightarrow> classified n2 = fs \<and> loaded n2 = fs | Inl e \<Rightarrow> e = Exit 1)" by blast
    show ?thesis
      apply (rule exI[of _ "n1 @ n2"])
      using n1 n2 Inr by (auto simp: classified_append loaded_append split: sum.splits)
  qed
qed

lemma load_files_append:
  "load_files env (pre @ f # post) tr =
     (case load_files env pre tr of
        (Inl e, t) \<Rightarrow> (Inl e, t)
      | (Inr u, t) \<Rightarrow>
          (case load_file env f t of
             (Inl e, t2) \<Rightarrow> (Inl e, t2)
           | (Inr u, t2) \<Rightarrow> load_files env post t2))"
  by (induction pre arbitrary: tr) (auto split: prod.splits sum.splits)

subsection \<open>The device scan\<close>

lemma token_cut:
  "take (strcspn (c_str bs) [NL]) (c_str bs) = takeWhile (\<lambda>c. c \<noteq> NL \<and> c \<noteq> NUL) bs"
  unfolding strcspn_def c_str_def by (induction bs) simp_all

lemma readat_trace:
  "readat env dir nm buf len tr = ((r, b), tr') \<Longrightarrow>
     \<exists>new. tr' = tr @ new \<and> list_all is_acquire_event new \<and> visited new = [] \<and> tcsetattrs new = []"
  by (auto simp: readat_def Let_def split: option.splits if_splits)

lemma readat_token_None:
  "attr_token env dir nm tr = None \<Longrightarrow>
     fst (fst (readat env dir nm buf 5 tr)) < 0 \<and> snd (fst (readat env dir nm buf 5 tr)) = buf"
  by (auto simp: readat_def attr_token_def Let_def EINVAL_def split: option.splits if_splits)

lemma readat_token_Some:
  "attr_token env dir nm tr = Some t \<Longrightarrow>
     readat env dir nm buf 5 tr = ((0, t), after_attr env dir nm tr)"
  by (auto simp: readat_def attr_token_def after_attr_def Let_def token_cut
      split: option.splits if_splits)

lemma snprintf_dev_idem:
  "snprintf_dev len d (snprintf_dev len d' old) = snprintf_dev len d old"
  by (simp add: snprintf_dev_def)

lemma body_result:
  "find_qdl_tty_body env tty len d s tr = (s', tr') \<Longrightarrow>
     (if candidate_matches env tty d tr
      then found s' = 0 \<and> dev_name s' = snprintf_dev len d (dev_name s)
      else found s' = found s \<and> dev_name s' = dev_name s)"
proof -
  assume b: "find_qdl_tty_body env tty len d s tr = (s', tr')"
  let ?fd = "sys_openat env tr tty d [O_DIRECTORY]"
  let ?tr1 = "tr @ [Openat tty d [O_DIRECTORY]]"
  let ?v = "attr_token env ?fd ''../../../../idVendor'' ?tr1"
  let ?p = "attr_token env ?fd ''../../../../idProduct'' (after_attr env ?fd ''../../../../idVendor'' ?tr1)"
  show ?thesis
  proof (cases "take 6 d = ''ttyUSB'' \<and> 0 \<le> ?fd")
    case False
    with b show ?thesis
      by (auto simp: find_qdl_tty_body_def candidate_matches_def Let_def split: if_splits)
  next
    case True
    show ?thesis
    proof (cases ?v)
      case None
      from readat_token_None[OF None, of "vid s"] True b show ?thesis
        using None
        by (auto simp: find_qdl_tty_body_def candidate_matches_def Let_def split: prod.splits if_splits)
    next
      case (Some v)
      note rv = readat_token_Some[OF Some, of "vid s"]
      show ?thesis
      proof (cases ?p)
        case None
        from readat_token_None[OF None, of "pid s"] True b rv Some None show ?thesis
          by (auto simp: find_qdl_tty_body_def candidate_matches_def Let_def split: prod.splits if_splits)
      next
        case (Some p)
        note rp = readat_token_Some[OF Some, of "pid s"]
        from True b rv rp Some \<open>?v = Some v\<close> show ?thesis
          by (auto simp: find_qdl_tty_body_def candidate_matches_def Let_def split: prod.splits if_splits)
      qed
    qed
  qed
qed

lemma body_trace:
  "find_qdl_tty_body env tty len d s tr = (s', tr') \<Longrightarrow>
     \<exists>new. tr' = tr @ new \<and> list_all is_acquire_event new \<and> visited new = [] \<and> tcsetattrs new = []"
proof -
  assume b: "find_qdl_tty_body env tty len d s tr = (s', tr')"
  let ?fd = "sys_openat env tr tty d [O_DIRECTORY]"
  let ?tr1 = "tr @ [Openat tty d [O_DIRECTORY]]"
  obtain r1 b1 t1 where r1: "readat env ?fd ''../../../../idVendor'' (vid s) 5 ?tr1 = ((r1, b1), t1)"
    by (metis surj_pair)
  obtain r2 b2 t2 where r2: "readat env ?fd ''../../../../idProduct'' (pid s) 5 t1 = ((r2, b2), t2)"
    by (metis surj_pair)
  from readat_trace[OF r1] obtain n1 where n1: "t1 = ?tr1 @ n1" "list_all is_acquire_event n1" "visited n1 = []" "tcsetattrs n1 = []"
    by blast
  from readat_trace[OF r2] obtain n2 where n2: "t2 = t1 @ n2" "list_all is_acquire_event n2" "visited n2 = []" "tcsetattrs n2 = []"
    by blast
  from b r1 r2 n1 n2 show ?thesis
    by (auto simp: find_qdl_tty_body_def Let_def visited_append tcsetattrs_append split: if_splits)
qed

lemma loop_result:
  "find_qdl_tty_loop env tty len ds s tr = (s', tr') \<Longrightarrow>
     (if scan_matches env tty len ds s tr = []
      then found s' = found s \<and> dev_name s' = dev_name s
      else found s' = 0 \<and>
           dev_name s' = snprintf_dev len (last (scan_matches env tty len ds s tr)) (dev_name s))"
proof (induction ds arbitrary: s tr)
  case Nil
  then show ?case by auto
next
  case (Cons d ds)
  let ?tr0 = "tr @ [Readdir (Some d)]"
  obtain s1 tr1 where b: "find_qdl_tty_body env tty len d s ?tr0 = (s1, tr1)"
    by (metis surj_pair)
  with Cons.prems have l: "find_qdl_tty_loop env tty len ds s1 tr1 = (s', tr')" by simp
  note ih = Cons.IH[OF l]
  note br = body_result[OF b]
  show ?case
  proof (cases "scan_matches env tty len ds s1 tr1 = []")
    case True
    with ih br b show ?thesis by (auto split: if_splits)
  next
    case False
    with ih br b show ?thesis by (auto simp: snprintf_dev_idem split: if_splits)
  qed
qed

lemma loop_trace:
  "find_qdl_tty_loop env tty len ds s tr = (s', tr') \<Longrightarrow>
     \<exists>new. tr' = tr @ new \<and> list_all is_acquire_event new \<and> visited new = ds \<and> tcsetattrs new = []"
proof (induction ds arbitrary: s tr)
  case Nil
  then show ?case by auto
next
  case (Cons d ds)
  let ?tr0 = "tr @ [Readdir (Some d)]"
  obtain s1 tr1 where b: "find_qdl_tty_body env tty len d s ?tr0 = (s1, tr1)"
    by (metis surj_pair)
  with Cons.prems have l: "find_qdl_tty_loop env tty len ds s1 tr1 = (s', tr')" by simp
  from body_trace[OF b] obtain n1 where n1: "tr1 = ?tr0 @ n1" "list_all is_acquire_event n1" "visited n1 = []" "tcsetattrs n1 = []"
    by blast
  from Cons.IH[OF l] obtain n2 where n2: "tr' = tr1 @ n2" "list_all is_acquire_event n2" "visited n2 = ds" "tcsetattrs n2 = []"
    by blast
  show ?case
    apply (rule exI[of _ "Readdir (Some d) # n1 @ n2"])
    using n1 n2 by (simp add: visited_append tcsetattrs_append)
qed

subsection \<open>Acquisition and the run as a whole\<close>

lemma find_qdl_tty_open_fails:
  "sys_open env tr ''/sys/class/tty'' [O_DIRECTORY] < 0 \<Longrightarrow>
     find_qdl_tty env p len tr =
       (Inl (Exit 1), tr @ [Open_path ''/sys/class/tty'' [O_DIRECTORY],
                            Err 1 ''failed to open /sys/class/tty''])"
  by (simp add: find_qdl_tty_def Let_def)

lemma find_qdl_tty_scanned:
  assumes "0 \<le> sys_open env tr ''/sys/class/tty'' [O_DIRECTORY]"
    and "sys_fdopendir env (tr @ [Open_path ''/sys/class/tty'' [O_DIRECTORY]])
           (sys_open env tr ''/sys/class/tty'' [O_DIRECTORY]) = Some ds"
  shows "\<exists>new. find_qdl_tty env p len tr =
            (Inr (let ms = scan_matches env (sys_open env tr ''/sys/class/tty'' [O_DIRECTORY]) len ds
                             (scan_state0 env p)
                             (tr @ [Open_path ''/sys/class/tty'' [O_DIRECTORY],
                                    Fdopendir (sys_open env tr ''/sys/class/tty'' [O_DIRECTORY])])
                  in if ms = [] then (- ENOENT, p) else (0, snprintf_dev len (last ms) p)),
             tr @ new) \<and>
          list_all is_acquire_event new \<and> visited new = ds \<and> tcsetattrs new = []"
proof -
  let ?tty = "sys_open env tr ''/sys/class/tty'' [O_DIRECTORY]"
  let ?t1 = "tr @ [Open_path ''/sys/class/tty'' [O_DIRECTORY], Fdopendir ?tty]"
  obtain s' t2 where l: "find_qdl_tty_loop env ?tty len ds (scan_state0 env p) ?t1 = (s', t2)"
    by (metis surj_pair)
  from loop_trace[OF l] obtain n where n: "t2 = ?t1 @ n" "list_all is_acquire_event n" "visited n = ds" "tcsetattrs n = []"
    by blast
  note res = loop_result[OF l]
  have fq: "find_qdl_tty env p len tr = (Inr (found s', dev_name s'), t2 @ [Closedir, Close ?tty])"
    using assms l by (simp add: find_qdl_tty_def Let_def scan_state0_def)
  show ?thesis
    apply (rule exI[of _ "[Open_path ''/sys/class/tty'' [O_DIRECTORY], Fdopendir ?tty] @ n @ [Closedir, Close ?tty]"])
    using fq n res by (auto simp: Let_def visited_append tcsetattrs_append scan_state0_def)
qed

lemma find_qdl_tty_trace:
  "find_qdl_tty env p len tr = (r, tr') \<Longrightarrow>
     \<exists>new. tr' = tr @ new \<and> list_all is_acquire_event new \<and> tcsetattrs new = [] \<and>
       (case r of Inl e \<Rightarrow> e = Exit 1 | Inr (ret, p') \<Rightarrow> ret = 0 \<or> ret = - ENOENT)"
proof -
  assume a: "find_qdl_tty env p len tr = (r, tr')"
  let ?tty = "sys_open env tr ''/sys/class/tty'' [O_DIRECTORY]"
  let ?t1 = "tr @ [Open_path ''/sys/class/tty'' [O_DIRECTORY]]"
  show ?thesis
  proof (cases "?tty < 0")
    case True
    from find_qdl_tty_open_fails[OF True, of p len] a show ?thesis by auto
  next
    case False
    show ?thesis
    proof (cases "sys_fdopendir env ?t1 ?tty")
      case None
      with False a show ?thesis by (auto simp: find_qdl_tty_def Let_def)
    next
      case (Some ds)
      from False have "0 \<le> ?tty" by simp
      from find_qdl_tty_scanned[OF this Some, of p len] a show ?thesis
        by (auto simp: Let_def split: if_splits)
    qed
  qed
qed

lemma failed_before_restore_iff:
  "failed_before_restore tr =
     (tcsetattrs tr = [] \<or>
      (\<exists>pre fd m. tr = pre @ [Tcsetattr fd tios_new, Err 1 m] \<and> tcsetattrs pre = []))"
proof
  assume "failed_before_restore tr"
  then consider "tcsetattrs tr = []"
    | "2 \<le> length tr" "is_err1 (last tr)" "is_install (last (butlast tr))"
      "tcsetattrs (butlast (butlast tr)) = []"
    unfolding failed_before_restore_def by blast
  then show "tcsetattrs tr = [] \<or>
      (\<exists>pre fd m. tr = pre @ [Tcsetattr fd tios_new, Err 1 m] \<and> tcsetattrs pre = [])"
  proof cases
    case 1
    then show ?thesis by simp
  next
    case 2
    have "length (butlast tr) = length tr - 1" by (rule length_butlast)
    with 2(1) have "0 < length (butlast tr)" by linarith
    then have "butlast tr \<noteq> []" by (cases "butlast tr") simp_all
    moreover from 2(1) have "tr \<noteq> []" by auto
    ultimately have ne: "tr \<noteq> []" "butlast tr \<noteq> []" by blast+
    have "tr = butlast tr @ [last tr]" using ne(1) by simp
    moreover have "butlast tr = butlast (butlast tr) @ [last (butlast tr)]" using ne(2) by simp
    ultimately have tr: "tr = butlast (butlast tr) @ [last (butlast tr), last tr]"
      by (metis append.assoc append_Cons append_Nil)
    from 2(2) obtain m where l: "last tr = Err 1 m" by (cases "last tr") auto
    from 2(3) obtain fd where b: "last (butlast tr) = Tcsetattr fd tios_new"
      by (cases "last (butlast tr)") auto
    from tr l b have "tr = butlast (butlast tr) @ [Tcsetattr fd tios_new, Err 1 m]" by simp
    with 2(4) show ?thesis by blast
  qed
next
  assume "tcsetattrs tr = [] \<or>
      (\<exists>pre fd m. tr = pre @ [Tcsetattr fd tios_new, Err 1 m] \<and> tcsetattrs pre = [])"
  then show "failed_before_restore tr"
    by (auto simp: failed_before_restore_def butlast_append)
qed

lemma failed_before_restore_prepend:
  "tcsetattrs xs = [] \<Longrightarrow> failed_before_restore ys \<Longrightarrow> failed_before_restore (xs @ ys)"
  unfolding failed_before_restore_iff
proof (elim disjE exE conjE)
  assume "tcsetattrs xs = []" "tcsetattrs ys = []"
  then show "tcsetattrs (xs @ ys) = [] \<or>
    (\<exists>pre fd m. xs @ ys = pre @ [Tcsetattr fd tios_new, Err 1 m] \<and> tcsetattrs pre = [])"
    by (simp add: tcsetattrs_append)
next
  fix pre fd m
  assume a: "tcsetattrs xs = []" "ys = pre @ [Tcsetattr fd tios_new, Err 1 m]" "tcsetattrs pre = []"
  then have "xs @ ys = (xs @ pre) @ [Tcsetattr fd tios_new, Err 1 m] \<and> tcsetattrs (xs @ pre) = []"
    by (simp add: tcsetattrs_append)
  then show "tcsetattrs (xs @ ys) = [] \<or>
    (\<exists>pre fd m. xs @ ys = pre @ [Tcsetattr fd tios_new, Err 1 m] \<and> tcsetattrs pre = [])"
    by blast
qed

lemma failed_before_restore_tcsetattrs:
  "failed_before_restore xs \<Longrightarrow> tcsetattrs xs = [] \<or> (\<exists>fd. tcsetattrs xs = [(fd, tios_new)])"
  by (auto simp: failed_before_restore_iff tcsetattrs_append)

lemma tty_open_path_trace:
  "tty_open_path env path tr = (r, tr') \<Longrightarrow>
     \<exists>new. tr' = tr @ new \<and> list_all is_acquire_event new \<and>
       (case r of
          Inl e \<Rightarrow> e = Exit 1 \<and> failed_before_restore new
        | Inr (fd, old) \<Rightarrow>
            0 \<le> fd \<and>
            new = [Open_path path [O_RDWR, O_NOCTTY, O_EXCL], Tcgetattr fd, Tcflush fd,
                   Tcsetattr fd tios_new] \<and>
            old = snd (sys_tcgetattr env (tr @ [Open_path path [O_RDWR, O_NOCTTY, O_EXCL]]) fd))"
  by (auto simp: tty_open_path_def Let_def failed_before_restore_iff split: prod.splits if_splits)

lemma tty_open_retry_trace:
  "tty_open_retry env path tr = Some y \<Longrightarrow>
     \<exists>new. snd y = tr @ new \<and> list_all is_acquire_event new \<and>
       (case fst y of
          Inl e \<Rightarrow> e = Exit 1 \<and> failed_before_restore new
        | Inr (fd, old) \<Rightarrow>
            0 \<le> fd \<and> tcsetattrs new = [(fd, tios_new)] \<and>
            (\<exists>p0 t0 path1 t1.
               find_qdl_tty env p0 PATH_MAX t0 = (Inr (0, path1), t1) \<and>
               snd y = t1 @ [Open_path path1 [O_RDWR, O_NOCTTY, O_EXCL], Tcgetattr fd,
                             Tcflush fd, Tcsetattr fd tios_new] \<and>
               old = snd (sys_tcgetattr env
                            (t1 @ [Open_path path1 [O_RDWR, O_NOCTTY, O_EXCL]]) fd)))"
proof (induction rule: tty_open_retry.raw_induct[rotated 1, consumes 1, case_names step])
  case (step f env path tr y)
  obtain r tr1 where fq: "find_qdl_tty env path PATH_MAX tr = (r, tr1)" by (metis surj_pair)
  from find_qdl_tty_trace[OF fq] obtain n1 where n1: "tr1 = tr @ n1" "list_all is_acquire_event n1"
    "tcsetattrs n1 = []"
    "(case r of Inl e \<Rightarrow> e = Exit 1 | Inr (ret, p') \<Rightarrow> ret = 0 \<or> ret = - ENOENT)" by blast
  show ?case
  proof (cases r)
    case (Inl e)
    with step(2) fq n1 show ?thesis by (auto simp: failed_before_restore_iff)
  next
    case (Inr rp)
    obtain ret path1 where rp: "rp = (ret, path1)" by (cases rp)
    show ?thesis
    proof (cases "ret < 0")
      case True
      let ?w = "[Printf (''Waiting for QDL tty...'' @ [CR]), Fflush_stdout, Sleep 1]"
      from step(2) fq Inr rp True have "f env path1 (tr1 @ ?w) = Some y" by simp
      from step(1)[OF this] obtain n2 where n2: "snd y = (tr1 @ ?w) @ n2" "list_all is_acquire_event n2"
        and c2: "(case fst y of
          Inl e \<Rightarrow> e = Exit 1 \<and> failed_before_restore n2
        | Inr (fd, old) \<Rightarrow>
            0 \<le> fd \<and> tcsetattrs n2 = [(fd, tios_new)] \<and>
            (\<exists>p0 t0 path1 t1.
               find_qdl_tty env p0 PATH_MAX t0 = (Inr (0, path1), t1) \<and>
               snd y = t1 @ [Open_path path1 [O_RDWR, O_NOCTTY, O_EXCL], Tcgetattr fd,
                             Tcflush fd, Tcsetattr fd tios_new] \<and>
               old = snd (sys_tcgetattr env
                            (t1 @ [Open_path path1 [O_RDWR, O_NOCTTY, O_EXCL]]) fd)))" by blast
      have tc: "tcsetattrs (n1 @ ?w @ n2) = tcsetattrs n2"
        using n1 by (simp add: tcsetattrs_append)
      have fb: "failed_before_restore n2 \<Longrightarrow> failed_before_restore (n1 @ ?w @ n2)"
        using failed_before_restore_prepend[of "n1 @ ?w" n2] n1 by (simp add: tcsetattrs_append)
      show ?thesis
        apply (rule exI[of _ "n1 @ ?w @ n2"])
        using n1 n2 c2 fb unfolding tc by (auto split: sum.splits)
    next
      case False
      with n1 Inr rp have ret0: "ret = 0" by (auto simp: ENOENT_def)
      from step(2) fq Inr rp False have y: "y = tty_open_path env path1 tr1" by simp
      obtain r2 t2 where tp: "tty_open_path env path1 tr1 = (r2, t2)" by (metis surj_pair)
      from tty_open_path_trace[OF tp] obtain n2 where n2: "t2 = tr1 @ n2" "list_all is_acquire_event n2"
        and c2: "(case r2 of
          Inl e \<Rightarrow> e = Exit 1 \<and> failed_before_restore n2
        | Inr (fd, old) \<Rightarrow>
            0 \<le> fd \<and>
            n2 = [Open_path path1 [O_RDWR, O_NOCTTY, O_EXCL], Tcgetattr fd, Tcflush fd,
                   Tcsetattr fd tios_new] \<and>
            old = snd (sys_tcgetattr env (tr1 @ [Open_path path1 [O_RDWR, O_NOCTTY, O_EXCL]]) fd))" by blast
      have tc: "tcsetattrs (n1 @ n2) = tcsetattrs n2"
        using n1 by (simp add: tcsetattrs_append)
      show ?thesis
      proof (cases r2)
        case (Inl e)
        show ?thesis
          apply (rule exI[of _ "n1 @ n2"])
          using n1 n2 c2 y tp Inl failed_before_restore_prepend[of n1 n2] unfolding tc by simp
      next
        case (Inr fo)
        obtain fd old where fo: "fo = (fd, old)" by (cases fo)
        have "find_qdl_tty env path PATH_MAX tr = (Inr (0, path1), tr1)"
          using fq \<open>r = Inr rp\<close> rp ret0 by simp
        then have ex: "\<exists>p0 t0 pa t1.
               find_qdl_tty env p0 PATH_MAX t0 = (Inr (0, pa), t1) \<and>
               t2 = t1 @ [Open_path pa [O_RDWR, O_NOCTTY, O_EXCL], Tcgetattr fd,
                             Tcflush fd, Tcsetattr fd tios_new] \<and>
               old = snd (sys_tcgetattr env
                            (t1 @ [Open_path pa [O_RDWR, O_NOCTTY, O_EXCL]]) fd)"
          using n2 c2 Inr fo by auto
        show ?thesis
          apply (rule exI[of _ "n1 @ n2"])
          using n1 n2 c2 y tp Inr fo ex unfolding tc by simp
      qed
    qed
  qed
qed

lemma tty_open_trace:
  "tty_open env tr = Some (r, tr') \<Longrightarrow>
     \<exists>new. tr' = tr @ new \<and> list_all is_acquire_event new \<and>
       (case r of
          Inl e \<Rightarrow> e = Exit 1 \<and> failed_before_restore new
        | Inr (fd, old) \<Rightarrow>
            0 \<le> fd \<and> tcsetattrs new = [(fd, tios_new)] \<and>
            (\<exists>p0 t0 path1 t1.
               find_qdl_tty env p0 PATH_MAX t0 = (Inr (0, path1), t1) \<and>
               tr' = t1 @ [Open_path path1 [O_RDWR, O_NOCTTY, O_EXCL], Tcgetattr fd,
                             Tcflush fd, Tcsetattr fd tios_new] \<and>
               old = snd (sys_tcgetattr env
                            (t1 @ [Open_path path1 [O_RDWR, O_NOCTTY, O_EXCL]]) fd)))"
  using tty_open_retry_trace[of env "indeterminate env" tr "(r, tr')"]
  by (cases r) (auto simp: tty_open_def)

lemma load_files_Inl: "load_files env fs tr = (Inl e, tr') \<Longrightarrow> e = Exit 1"
  using load_files_trace[of env fs tr "Inl e" tr'] by auto

lemma main_acquired:
  assumes "skip_debug argv0 = (argv, tr0)" and "3 \<le> length argv"
    and "load_files env (drop 2 argv) tr0 = (Inr u, tr1)"
    and "tty_open env tr1 = Some (Inr (fd, tios), tr2)"
  shows "main env argv0 = Some (run_and_restore env fd tios (argv ! 1) tr2)"
proof -
  from tty_open_trace[OF assms(4)] have "0 \<le> fd" by auto
  with assms show ?thesis by (simp add: main_def Let_def)
qed

lemma main_load_fails:
  assumes "skip_debug argv0 = (argv, tr0)" and "3 \<le> length argv"
    and "load_files env (drop 2 argv) tr0 = (Inl e, tr1)"
  shows "main env argv0 = Some (1, tr1)"
  using assms load_files_Inl[OF assms(3)] by (simp add: main_def Let_def)

lemma main_acquire_fails:
  assumes "skip_debug argv0 = (argv, tr0)" and "3 \<le> length argv"
    and "load_files env (drop 2 argv) tr0 = (Inr u, tr1)"
    and "tty_open env tr1 = Some (Inl e, tr2)"
  shows "main env argv0 = Some (1, tr2)"
  using assms tty_open_trace[OF assms(4)] by (auto simp: main_def Let_def)

lemma main_waits:
  assumes "skip_debug argv0 = (argv, tr0)" and "3 \<le> length argv"
    and "load_files env (drop 2 argv) tr0 = (Inr u, tr1)"
    and "tty_open env tr1 = None"
  shows "main env argv0 = None"
  using assms by (simp add: main_def Let_def)

lemma skip_debug_trace: "skip_debug argv0 = (argv, tr0) \<Longrightarrow> tr0 = [] \<or> tr0 = [Set_qdl_debug]"
  by (auto simp: skip_debug_def split: if_splits)

lemma acquisition_Some:
  "acquisition env argv0 = Some (fd, tios, tr2) \<Longrightarrow>
     \<exists>argv tr0 u tr1. skip_debug argv0 = (argv, tr0) \<and> 3 \<le> length argv \<and>
       load_files env (drop 2 argv) tr0 = (Inr u, tr1) \<and>
       tty_open env tr1 = Some (Inr (fd, tios), tr2)"
  by (auto simp: acquisition_def split: prod.splits if_splits sum.splits option.splits)

lemma main_after_acquisition:
  assumes "acquisition env argv0 = Some (fd, tios, tr2)"
  shows "main env argv0 = Some (run_and_restore env fd tios (prog_mbn_of argv0) tr2)"
proof -
  from acquisition_Some[OF assms] obtain argv tr0 u tr1 where
    a: "skip_debug argv0 = (argv, tr0)" "3 \<le> length argv"
       "load_files env (drop 2 argv) tr0 = (Inr u, tr1)"
       "tty_open env tr1 = Some (Inr (fd, tios), tr2)" by blast
  from main_acquired[OF a] a(1) show ?thesis by (simp add: prog_mbn_of_def)
qed

lemma acquire_events_no_engine:
  "list_all is_acquire_event xs \<Longrightarrow>
     list_all (\<lambda>e. \<not> is_load_event e \<and> e \<noteq> Firehose_run fd \<and> e \<noteq> Sahara_run fd p \<and>
                   e \<noteq> Err 1 ''failed to open QDL tty'') xs"
proof (induction xs)
  case Nil
  then show ?case by simp
next
  case (Cons e xs)
  then show ?case by (cases e) simp_all
qed

lemma load_events_no_engine:
  "list_all is_load_event xs \<Longrightarrow>
     list_all (\<lambda>e. e \<noteq> Firehose_run fd \<and> e \<noteq> Sahara_run fd p \<and>
                   e \<noteq> Err 1 ''failed to open QDL tty'') xs"
proof (induction xs)
  case Nil
  then show ?case by simp
next
  case (Cons e xs)
  then show ?case by (cases e) simp_all
qed

text \<open>What a trace holds when \<open>tty_open\<close> has returned.\<close>

lemma acquisition_trace:
  assumes "acquisition env argv0 = Some (fd, tios, tr2)"
  shows "0 \<le> fd \<and> tcsetattrs tr2 = [(fd, tios_new)] \<and>
         (\<forall>fd'. Firehose_run fd' \<notin> set tr2) \<and>
         Err 1 ''failed to open QDL tty'' \<notin> set tr2 \<and>
         (\<exists>tq. tr2 = tq @ [Tcgetattr fd, Tcflush fd, Tcsetattr fd tios_new] \<and>
               tios = snd (sys_tcgetattr env tq fd))"
proof -
  from acquisition_Some[OF assms] obtain argv tr0 u tr1 where
    a: "skip_debug argv0 = (argv, tr0)" "3 \<le> length argv"
       "load_files env (drop 2 argv) tr0 = (Inr u, tr1)"
       "tty_open env tr1 = Some (Inr (fd, tios), tr2)" by blast
  from skip_debug_trace[OF a(1)] have t0: "tr0 = [] \<or> tr0 = [Set_qdl_debug]" .
  from load_files_trace[OF a(3)] obtain n1 where n1: "tr1 = tr0 @ n1" "list_all is_load_event n1"
    by auto
  have "\<exists>new. tr2 = tr1 @ new \<and> list_all is_acquire_event new \<and> 0 \<le> fd \<and>
          tcsetattrs new = [(fd, tios_new)] \<and>
          (\<exists>p0 t0 path1 t1.
               find_qdl_tty env p0 PATH_MAX t0 = (Inr (0, path1), t1) \<and>
               tr2 = t1 @ [Open_path path1 [O_RDWR, O_NOCTTY, O_EXCL], Tcgetattr fd,
                             Tcflush fd, Tcsetattr fd tios_new] \<and>
               tios = snd (sys_tcgetattr env
                            (t1 @ [Open_path path1 [O_RDWR, O_NOCTTY, O_EXCL]]) fd))"
    using tty_open_trace[OF a(4)] by simp
  then obtain n2 where n2: "tr2 = tr1 @ n2" "list_all is_acquire_event n2"
    "0 \<le> fd" "tcsetattrs n2 = [(fd, tios_new)]"
    and ex: "\<exists>p0 t0 path1 t1.
               find_qdl_tty env p0 PATH_MAX t0 = (Inr (0, path1), t1) \<and>
               tr2 = t1 @ [Open_path path1 [O_RDWR, O_NOCTTY, O_EXCL], Tcgetattr fd,
                             Tcflush fd, Tcsetattr fd tios_new] \<and>
               tios = snd (sys_tcgetattr env
                            (t1 @ [Open_path path1 [O_RDWR, O_NOCTTY, O_EXCL]]) fd)"
    by blast
  have tc: "tcsetattrs tr2 = [(fd, tios_new)]"
    using t0 n1 n2 load_events_no_tcsetattr[OF n1(2)] by (auto simp: tcsetattrs_append)
  have fh: "\<forall>fd'. Firehose_run fd' \<notin> set tr2"
    using t0 n1 n2 load_events_no_engine[OF n1(2)] acquire_events_no_engine[OF n2(2)]
    by (auto simp: list_all_iff)
  have er: "Err 1 ''failed to open QDL tty'' \<notin> set tr2"
    using t0 n1 n2 load_events_no_engine[OF n1(2)] acquire_events_no_engine[OF n2(2)]
    by (auto simp: list_all_iff)
  from ex obtain path1 t1 where
    e: "tr2 = t1 @ [Open_path path1 [O_RDWR, O_NOCTTY, O_EXCL], Tcgetattr fd,
                             Tcflush fd, Tcsetattr fd tios_new]"
       "tios = snd (sys_tcgetattr env (t1 @ [Open_path path1 [O_RDWR, O_NOCTTY, O_EXCL]]) fd)"
    by blast
  have "\<exists>tq. tr2 = tq @ [Tcgetattr fd, Tcflush fd, Tcsetattr fd tios_new] \<and>
               tios = snd (sys_tcgetattr env tq fd)"
    apply (rule exI[of _ "t1 @ [Open_path path1 [O_RDWR, O_NOCTTY, O_EXCL]]"])
    using e by simp
  with n2(3) tc fh er show ?thesis by blast
qed

text \<open>What a run that ends without a transport looks like.\<close>

lemma main_without_acquisition:
  assumes "acquisition env argv0 = None" and "main env argv0 = Some (st, tr)"
  shows "st = 1 \<and> failed_before_restore tr \<and> (\<forall>fd p. Sahara_run fd p \<notin> set tr) \<and>
         (\<forall>fd. Firehose_run fd \<notin> set tr) \<and> Err 1 ''failed to open QDL tty'' \<notin> set tr"
proof -
  obtain argv tr0 where sk: "skip_debug argv0 = (argv, tr0)" by (metis surj_pair)
  from skip_debug_trace[OF sk] have t0: "tr0 = [] \<or> tr0 = [Set_qdl_debug]" .
  show ?thesis
  proof (cases "length argv < 3")
    case True
    with assms(2) sk t0 show ?thesis
      by (auto simp: main_def failed_before_restore_def)
  next
    case False
    then have len: "3 \<le> length argv" by simp
    obtain r1 tr1 where lf: "load_files env (drop 2 argv) tr0 = (r1, tr1)" by (metis surj_pair)
    from load_files_trace[OF lf] obtain n1 where n1: "tr1 = tr0 @ n1" "list_all is_load_event n1"
      by auto
    note ne1 = load_events_no_engine[OF n1(2)]
    show ?thesis
    proof (cases r1)
      case (Inl e)
      from main_load_fails[OF sk len lf[unfolded Inl]] assms(2) have "st = 1" "tr = tr1" by simp_all
      then show ?thesis
        using t0 n1 ne1 load_events_no_tcsetattr[OF n1(2)]
        by (auto simp: failed_before_restore_def tcsetattrs_append list_all_iff)
    next
      case (Inr u)
      note lf' = lf[unfolded Inr]
      show ?thesis
      proof (cases "tty_open env tr1")
        case None
        from main_waits[OF sk len lf' None] assms(2) show ?thesis by simp
      next
        case (Some y)
        obtain r2 tr2 where y: "y = (r2, tr2)" by (cases y)
        show ?thesis
        proof (cases r2)
          case (Inl e)
          note to = Some[unfolded y Inl]
          from main_acquire_fails[OF sk len lf' to] assms(2) have m: "st = 1" "tr = tr2" by simp_all
          from tty_open_trace[OF to] obtain n2 where n2: "tr2 = tr1 @ n2"
            "list_all is_acquire_event n2" "failed_before_restore n2" by auto
          have "tcsetattrs tr1 = []"
            using t0 n1 load_events_no_tcsetattr[OF n1(2)] by (auto simp: tcsetattrs_append)
          from failed_before_restore_prepend[OF this n2(3)] have "failed_before_restore tr"
            using m n2 by simp
          then show ?thesis
            using m t0 n1 n2 ne1 acquire_events_no_engine[OF n2(2)]
            by (auto simp: list_all_iff)
        next
          case (Inr fo)
          obtain fd tios where "fo = (fd, tios)" by (cases fo)
          with sk len lf' Some y Inr have "acquisition env argv0 = Some (fd, tios, tr2)"
            by (simp add: acquisition_def)
          with assms(1) show ?thesis by simp
        qed
      qed
    qed
  qed
qed

lemma run_and_restore_eq:
  "run_and_restore env fd tios p tr =
     (0, tr @ (if sahara_run env tr fd p < 0 then [Sahara_run fd p]
               else [Sahara_run fd p, Firehose_run fd]) @
         [Tcsetattr fd tios] @
         (if sys_tcsetattr env
               (tr @ (if sahara_run env tr fd p < 0 then [Sahara_run fd p]
                      else [Sahara_run fd p, Firehose_run fd])) fd tios < 0
          then [Warn ''unable to restore tios of ttyUSB1''] else []) @
         [Close fd])"
  by (simp add: run_and_restore_def Let_def)

subsection \<open>Runs in the sample worlds\<close>

lemma retry_found:
  "find_qdl_tty env path PATH_MAX tr = (Inr (ret, path1), tr1) \<Longrightarrow> \<not> ret < 0 \<Longrightarrow>
     tty_open_retry env path tr = Some (tty_open_path env path1 tr1)"
  by (subst tty_open_retry.simps) simp


lemma retry_exits:
  "find_qdl_tty env path PATH_MAX tr = (Inl e, tr1) \<Longrightarrow>
     tty_open_retry env path tr = Some (Inl e, tr1)"
  by (subst tty_open_retry.simps) simp

lemmas sample_simps = sample_env_def failing_env_def sample_openat_def sample_read_def
  find_qdl_tty_def find_qdl_tty_body_def readat_def c_str_def strcspn_def snprintf_dev_def
  PATH_MAX_def NL_def NUL_def EINVAL_def ENOENT_def Let_def

lemma sample_scan:
  "find_qdl_tty sample_env p PATH_MAX tr = (Inr (0, ''/dev/ttyUSB2''), tr @ sample_scan_trace)"
  by (simp add: sample_simps sample_scan_trace_def)

lemma failing_scan:
  "find_qdl_tty failing_env p PATH_MAX tr = (Inr (0, ''/dev/ttyUSB2''), tr @ sample_scan_trace)"
  by (simp add: sample_simps sample_scan_trace_def)

lemma tcsetattrs_sample_scan: "tcsetattrs sample_scan_trace = []"
  by (simp add: sample_scan_trace_def)

lemma failing_load:
  "load_files failing_env [''rawprogram0.xml''] [Set_qdl_debug] = (Inr (), sample_loaded)"
  by (simp add: load_file_def detect_type_def failing_env_def sample_env_def sample_xml_def
      sample_loaded_def QDL_FILE_UNKNOWN_def QDL_FILE_PATCH_def QDL_FILE_PROGRAM_def)

lemma failing_tty_open:
  "tty_open failing_env sample_loaded = Some (Inr (3, tios_cooked), sample_acquired)"
proof -
  have "tty_open_path failing_env ''/dev/ttyUSB2'' (sample_loaded @ sample_scan_trace) =
          (Inr (3, tios_cooked), sample_acquired)"
    by (simp add: tty_open_path_def failing_env_def sample_env_def sample_acquired_def
        tcsetattrs_append tcsetattrs_sample_scan sample_loaded_def)
  with retry_found[OF failing_scan[of "indeterminate failing_env" sample_loaded]]
  show ?thesis by (simp add: tty_open_def)
qed

lemma failing_acquisition:
  "acquisition failing_env sample_argv = Some (3, tios_cooked, sample_acquired)"
  using failing_load failing_tty_open
  by (simp add: acquisition_def skip_debug_def sample_argv_def)

lemma failing_handshake: "sahara_run failing_env tr fd p < 0"
  by (simp add: failing_env_def)

lemma failing_restore: "sys_tcsetattr failing_env (sample_acquired @ tr) fd t < 0"
  by (simp add: failing_env_def sample_acquired_def tcsetattrs_append)

lemma failing_run:
  "main failing_env sample_argv =
     Some (0, sample_acquired @
              [Sahara_run 3 ''prog.mbn'', Tcsetattr 3 tios_cooked,
               Warn ''unable to restore tios of ttyUSB1'', Close 3])"
  using main_after_acquisition[OF failing_acquisition] failing_handshake
    failing_restore[of "[Sahara_run 3 ''prog.mbn'']" 3 tios_cooked]
  by (simp add: run_and_restore_eq prog_mbn_of_def skip_debug_def sample_argv_def)

lemma closed_load:
  "load_files closed_env [''rawprogram0.xml''] [Set_qdl_debug] = (Inr (), sample_loaded)"
  by (simp add: load_file_def detect_type_def closed_env_def sample_env_def sample_xml_def
      sample_loaded_def QDL_FILE_UNKNOWN_def QDL_FILE_PATCH_def QDL_FILE_PROGRAM_def)

lemma closed_tty_open:
  "tty_open closed_env tr =
     Some (Inl (Exit 1), tr @ [Open_path ''/sys/class/tty'' [O_DIRECTORY],
                               Err 1 ''failed to open /sys/class/tty''])"
proof -
  have "sys_open closed_env tr ''/sys/class/tty'' [O_DIRECTORY] < 0"
    by (simp add: closed_env_def)
  from retry_exits[OF find_qdl_tty_open_fails[OF this]] show ?thesis
    by (simp add: tty_open_def)
qed

lemma closed_acquisition: "acquisition closed_env sample_argv = None"
  using closed_load closed_tty_open[of sample_loaded]
  by (simp add: acquisition_def skip_debug_def sample_argv_def)

lemma closed_run:
  "main closed_env sample_argv =
     Some (1, sample_loaded @ [Open_path ''/sys/class/tty'' [O_DIRECTORY],
                               Err 1 ''failed to open /sys/class/tty''])"
proof -
  have sk: "skip_debug sample_argv = ([''--debug'', ''prog.mbn'', ''rawprogram0.xml''], [Set_qdl_debug])"
    by (simp add: skip_debug_def sample_argv_def)
  have len: "3 \<le> length [''--debug'', ''prog.mbn'', ''rawprogram0.xml'']" by simp
  have lf: "load_files closed_env (drop 2 [''--debug'', ''prog.mbn'', ''rawprogram0.xml'']) [Set_qdl_debug] =
      (Inr (), sample_loaded)"
    using closed_load by simp
  from main_acquire_fails[OF sk len lf closed_tty_open] show ?thesis .
qed








section \<open>The claims\<close>

subsection \<open>Descriptor classification\<close>

text \<open>
  C5. \<open>detect_type\<close> looks at nothing but the name of the root element of the parsed
  document: the result is the kind the specification assigns to that tag (patch for
  \<open>patches\<close>, program for \<open>data\<close>, contents for \<open>contents\<close>, unknown for every
  other tag), whatever the rest of the document holds. When the file does not parse, the
  result is the negative value \<open>-EINVAL\<close>, which is none of the four kinds, and a message
  with the file name is written to the error stream.
\<close>

theorem detect_type_classifies:
  "(\<forall>doc. xmlReadFile env tr f = Some doc \<longrightarrow>
      detect_type env f tr =
        (kind_of_tag (name (xmlDocGetRootElement doc)), tr @ [Xml_read_file f, Xml_free_doc])) \<and>
   (xmlReadFile env tr f = None \<longrightarrow>
      fst (detect_type env f tr) = - EINVAL \<and>
      fst (detect_type env f tr) < 0 \<and>
      fst (detect_type env f tr) \<notin>
        {QDL_FILE_UNKNOWN, QDL_FILE_PATCH, QDL_FILE_PROGRAM, QDL_FILE_CONTENTS} \<and>
      snd (detect_type env f tr) =
        tr @ [Xml_read_file f, Fprintf_stderr (''[PATCH] failed to parse '' @ f @ [NL])]) \<and>
   kind_of_tag ''patches'' = QDL_FILE_PATCH \<and>
   kind_of_tag ''data'' = QDL_FILE_PROGRAM \<and>
   kind_of_tag ''contents'' = QDL_FILE_CONTENTS \<and>
   (\<forall>t. t \<notin> {''patches'', ''data'', ''contents''} \<longrightarrow> kind_of_tag t = QDL_FILE_UNKNOWN) \<and>
   card {QDL_FILE_UNKNOWN, QDL_FILE_PATCH, QDL_FILE_PROGRAM, QDL_FILE_CONTENTS} = 4"
  by (simp add: detect_type_def kind_of_tag_def EINVAL_def QDL_FILE_UNKNOWN_def
      QDL_FILE_PATCH_def QDL_FILE_PROGRAM_def QDL_FILE_CONTENTS_def)

theorem detect_type_classifies_witness:
  "detect_type sample_env ''rawprogram0.xml'' [] =
     (QDL_FILE_PROGRAM, [Xml_read_file ''rawprogram0.xml'', Xml_free_doc]) \<and>
   detect_type sample_env ''config.xml'' [] =
     (QDL_FILE_UNKNOWN, [Xml_read_file ''config.xml'', Xml_free_doc]) \<and>
   detect_type sample_env ''missing.xml'' [] =
     (- EINVAL, [Xml_read_file ''missing.xml'',
                 Fprintf_stderr (''[PATCH] failed to parse missing.xml'' @ [NL])])"
  using detect_type_classifies[of sample_env "[]" "''rawprogram0.xml''"]
    detect_type_classifies[of sample_env "[]" "''config.xml''"]
    detect_type_classifies[of sample_env "[]" "''missing.xml''"]
  by (simp add: sample_env_def sample_xml_def prod_eq_iff)

subsection \<open>Descriptor files that end the run\<close>

lemma load_file_contents:
  "xmlReadFile env tr f = Some doc \<Longrightarrow> name (xmlDocGetRootElement doc) = ''contents'' \<Longrightarrow>
     load_file env f tr =
       (Inl (Exit 1), tr @ [Xml_read_file f, Xml_free_doc, Errx 1 (f @ '' type not yet supported'')])"
  by (simp add: load_file_def detect_type_def QDL_FILE_UNKNOWN_def QDL_FILE_PATCH_def
      QDL_FILE_PROGRAM_def QDL_FILE_CONTENTS_def)

lemma load_file_unparsed:
  "xmlReadFile env tr f = None \<Longrightarrow>
     load_file env f tr =
       (Inl (Exit 1),
        tr @ [Xml_read_file f, Fprintf_stderr (''[PATCH] failed to parse '' @ f @ [NL]),
              Errx 1 (''failed to detect file type of '' @ f @ [NL])])"
  by (simp add: load_file_def detect_type_def EINVAL_def)

lemma load_file_unknown:
  "xmlReadFile env tr f = Some doc \<Longrightarrow>
   name (xmlDocGetRootElement doc) \<notin> {''patches'', ''data'', ''contents''} \<Longrightarrow>
     load_file env f tr =
       (Inl (Exit 1),
        tr @ [Xml_read_file f, Xml_free_doc,
              Errx 1 (''failed to detect file type of '' @ f @ [NL])])"
  by (simp add: load_file_def detect_type_def QDL_FILE_UNKNOWN_def)

lemma main_file_fails:
  assumes "skip_debug argv0 = (argv, tr0)" and "drop 2 argv = pre @ f # post"
    and "load_files env pre tr0 = (Inr u, tr1)"
    and "load_file env f tr1 = (Inl e, tr2)"
  shows "main env argv0 = Some (1, tr2)"
proof -
  have len: "3 \<le> length argv"
  proof -
    have "length (drop 2 argv) \<ge> 1" using assms(2) by simp
    then show ?thesis by simp
  qed
  have "load_files env (drop 2 argv) tr0 = (Inl e, tr2)"
    using assms by (simp add: load_files_append)
  from main_load_fails[OF assms(1) len this] show ?thesis .
qed

lemma messages_differ:
  "f @ '' type not yet supported'' \<noteq> ''failed to detect file type of '' @ g @ [NL]"
proof
  assume "f @ '' type not yet supported'' = ''failed to detect file type of '' @ g @ [NL]"
  then have "last (f @ '' type not yet supported'') = last (''failed to detect file type of '' @ g @ [NL])"
    by simp
  then show False by (simp add: NL_def)
qed

text \<open>
  C9. In a run whose earlier descriptor files have all loaded, a file whose root element is
  \<open>contents\<close> ends the process with status 1 and the diagnostic
  \<open>"<file> type not yet supported"\<close>; a file that does not parse or has an unknown
  root ends it with status 1 and the diagnostic \<open>"failed to detect file type of <file>"\<close>.
  The two diagnostics differ for all file names, both contain the name of the file, and in
  each case the run ends right after the diagnostic: no loader is called for the file.
\<close>

theorem contents_not_yet_supported:
  assumes "skip_debug argv0 = (argv, tr0)" and "drop 2 argv = pre @ f # post"
    and "load_files env pre tr0 = (Inr u, tr1)"
  shows
    "(\<forall>doc. xmlReadFile env tr1 f = Some doc \<and> name (xmlDocGetRootElement doc) = ''contents'' \<longrightarrow>
        main env argv0 =
          Some (1, tr1 @ [Xml_read_file f, Xml_free_doc,
                          Errx 1 (f @ '' type not yet supported'')])) \<and>
     (\<forall>doc. xmlReadFile env tr1 f = Some doc \<and>
            name (xmlDocGetRootElement doc) \<notin> {''patches'', ''data'', ''contents''} \<longrightarrow>
        main env argv0 =
          Some (1, tr1 @ [Xml_read_file f, Xml_free_doc,
                          Errx 1 (''failed to detect file type of '' @ f @ [NL])])) \<and>
     (xmlReadFile env tr1 f = None \<longrightarrow>
        main env argv0 =
          Some (1, tr1 @ [Xml_read_file f,
                          Fprintf_stderr (''[PATCH] failed to parse '' @ f @ [NL]),
                          Errx 1 (''failed to detect file type of '' @ f @ [NL])])) \<and>
     (\<forall>g. f @ '' type not yet supported'' \<noteq> ''failed to detect file type of '' @ g @ [NL])"
  using main_file_fails[OF assms] load_file_contents[of env tr1 f]
    load_file_unknown[of env tr1 f] load_file_unparsed[of env tr1 f] messages_differ[of f]
  by simp

lemma sample_load_rawprogram:
  "load_files sample_env [''rawprogram0.xml''] [] =
     (Inr (), [Xml_read_file ''rawprogram0.xml'', Xml_free_doc, Program_load ''rawprogram0.xml''])"
  by (simp add: load_file_def detect_type_def sample_env_def sample_xml_def
      QDL_FILE_UNKNOWN_def QDL_FILE_PATCH_def QDL_FILE_PROGRAM_def)

theorem contents_not_yet_supported_witness:
  "main sample_env [''qdl'', ''prog.mbn'', ''rawprogram0.xml'', ''contents.xml'', ''patch0.xml''] =
     Some (1, [Xml_read_file ''rawprogram0.xml'', Xml_free_doc, Program_load ''rawprogram0.xml'',
               Xml_read_file ''contents.xml'', Xml_free_doc,
               Errx 1 ''contents.xml type not yet supported'']) \<and>
   main sample_env [''qdl'', ''prog.mbn'', ''rawprogram0.xml'', ''config.xml'', ''patch0.xml''] =
     Some (1, [Xml_read_file ''rawprogram0.xml'', Xml_free_doc, Program_load ''rawprogram0.xml'',
               Xml_read_file ''config.xml'', Xml_free_doc,
               Errx 1 (''failed to detect file type of config.xml'' @ [NL])]) \<and>
   main sample_env [''qdl'', ''prog.mbn'', ''rawprogram0.xml'', ''missing.xml'', ''patch0.xml''] =
     Some (1, [Xml_read_file ''rawprogram0.xml'', Xml_free_doc, Program_load ''rawprogram0.xml'',
               Xml_read_file ''missing.xml'',
               Fprintf_stderr (''[PATCH] failed to parse missing.xml'' @ [NL]),
               Errx 1 (''failed to detect file type of missing.xml'' @ [NL])])"
proof -
  have sk: "\<And>f. skip_debug [''qdl'', ''prog.mbn'', ''rawprogram0.xml'', f, ''patch0.xml''] =
      ([''qdl'', ''prog.mbn'', ''rawprogram0.xml'', f, ''patch0.xml''], [])"
    by (simp add: skip_debug_def)
  have dr: "\<And>f. drop 2 [''qdl'', ''prog.mbn'', ''rawprogram0.xml'', f, ''patch0.xml''] =
      [''rawprogram0.xml''] @ f # [''patch0.xml'']"
    by simp
  note th = contents_not_yet_supported[OF sk dr sample_load_rawprogram]
  show ?thesis
    using th[of "''contents.xml''"] th[of "''config.xml''"] th[of "''missing.xml''"]
    by (simp add: sample_env_def sample_xml_def)
qed

lemma load_event_not_device: "is_load_event e \<Longrightarrow> \<not> is_device_event e"
  by (cases e) simp_all

lemma load_events_not_device:
  "list_all is_load_event xs \<Longrightarrow> list_all (\<lambda>e. \<not> is_device_event e) xs"
  by (induction xs) (simp_all add: load_event_not_device)

lemma load_file_ends_run_iff:
  "isl (fst (load_file env f tr)) =
     (fails_to_classify env f tr \<or> fails_to_load env f tr \<or> not_yet_supported env f tr)"
  by (auto simp: fails_to_classify_def fails_to_load_def not_yet_supported_def load_file_def
      detect_type_def EINVAL_def QDL_FILE_UNKNOWN_def QDL_FILE_PATCH_def QDL_FILE_PROGRAM_def
      QDL_FILE_CONTENTS_def Let_def split: option.splits)

lemma load_files_first_failure:
  "load_files env fs tr0 = (Inl e, tr2) \<Longrightarrow>
     \<exists>pre f post u tr1. fs = pre @ f # post \<and> load_files env pre tr0 = (Inr u, tr1) \<and>
       load_file env f tr1 = (Inl e, tr2)"
proof (induction fs arbitrary: tr0)
  case Nil
  then show ?case by simp
next
  case (Cons a fs)
  obtain r t where lf: "load_file env a tr0 = (r, t)" by (metis surj_pair)
  show ?case
  proof (cases r)
    case (Inl e')
    with Cons.prems lf have "load_file env a tr0 = (Inl e, tr2)" by simp
    then have "a # fs = [] @ a # fs \<and> load_files env [] tr0 = (Inr (), tr0) \<and>
       load_file env a tr0 = (Inl e, tr2)" by simp
    then show ?thesis by blast
  next
    case (Inr u)
    with Cons.prems lf have "load_files env fs t = (Inl e, tr2)" by simp
    from Cons.IH[OF this] obtain pre f post u' tr1 where
      d: "fs = pre @ f # post" "load_files env pre t = (Inr u', tr1)"
         "load_file env f tr1 = (Inl e, tr2)" by blast
    have "a # fs = (a # pre) @ f # post \<and> load_files env (a # pre) tr0 = (Inr u', tr1) \<and>
       load_file env f tr1 = (Inl e, tr2)"
      using d lf Inr by simp
    then show ?thesis by blast
  qed
qed

lemma load_files_member_fails:
  "f \<in> set fs \<Longrightarrow> \<forall>tr. isl (fst (load_file env f tr)) \<Longrightarrow>
     \<exists>e tr2. load_files env fs tr0 = (Inl e, tr2)"
proof (induction fs arbitrary: tr0)
  case Nil
  then show ?case by simp
next
  case (Cons a fs)
  obtain r t where lf: "load_file env a tr0 = (r, t)" by (metis surj_pair)
  show ?case
  proof (cases r)
    case (Inl e)
    with lf show ?thesis by simp
  next
    case (Inr u)
    with lf Cons.prems(2) have "a \<noteq> f" by (metis fst_conv isl_def sum.distinct(1))
    with Cons.prems(1) have "f \<in> set fs" by simp
    from Cons.IH[OF this Cons.prems(2), of t] lf Inr show ?thesis by simp
  qed
qed

lemma main_first_failure:
  assumes "skip_debug argv0 = (argv, tr0)" and "drop 2 argv = pre @ f # post"
    and "load_files env pre tr0 = (Inr u, tr1)"
    and "isl (fst (load_file env f tr1))"
  shows "case main env argv0 of
           None \<Rightarrow> False
         | Some (st, tr) \<Rightarrow>
             st = 1 \<and> st \<noteq> 0 \<and> list_all (\<lambda>e. \<not> is_device_event e) tr \<and>
             classified tr = pre @ [f] \<and> (loaded tr = pre \<or> loaded tr = pre @ [f])"
proof -
  from assms(4) obtain e tr2 where lf: "load_file env f tr1 = (Inl e, tr2)"
    by (metis isl_def prod.collapse)
  from main_file_fails[OF assms(1-3) lf] have m: "main env argv0 = Some (1, tr2)" .
  from load_files_trace[OF assms(3)] obtain n1 where n1: "tr1 = tr0 @ n1"
    "list_all is_load_event n1" "classified n1 = pre" "loaded n1 = pre"
    by auto
  from load_file_trace[OF lf] obtain n2 where n2: "tr2 = tr1 @ n2"
    "list_all is_load_event n2" "classified n2 = [f]" "loaded n2 = [] \<or> loaded n2 = [f]"
    by auto
  from skip_debug_trace[OF assms(1)] have t0: "tr0 = [] \<or> tr0 = [Set_qdl_debug]" .
  have dev: "list_all (\<lambda>e. \<not> is_device_event e) tr2"
    using t0 n1 n2 load_events_not_device[of n1] load_events_not_device[of n2] by auto
  have cl: "classified tr2 = pre @ [f]"
    using t0 n1 n2 by (auto simp: classified_append)
  have ld: "loaded tr2 = pre \<or> loaded tr2 = pre @ [f]"
    using t0 n1 n2 by (auto simp: loaded_append)
  show ?thesis using m dev cl ld by simp
qed

text \<open>
  C6. The loop body ends the process on a descriptor file exactly when the file fails to
  classify (it does not parse, or its root is unknown), fails to load, or is not yet
  supported. Take the descriptor files of any argument list.

  If they are \<open>pre\<close>, then \<open>f\<close>, then \<open>post\<close>, the files of \<open>pre\<close> have all
  loaded and \<open>f\<close> is such a file (the first one that ends the process), then the process
  ends with status 1; its trace holds no event of device enumeration or of the transport;
  the files handed to the parser are exactly \<open>pre\<close> and \<open>f\<close>, and the files handed to
  a loader are those of \<open>pre\<close> and at most \<open>f\<close> itself: nothing of \<open>post\<close> is
  classified or loaded.

  If the list holds, at any position, a file that is such a file whenever it is examined,
  then the process ends with status 1 without any event of device enumeration or of the
  transport, and what has been classified and loaded stops at the first file that ended
  the process, whichever files come before the failing one.
\<close>

theorem failing_file_stops_the_run:
  assumes "skip_debug argv0 = (argv, tr0)"
  shows
    "(\<forall>pre f post u tr1.
        drop 2 argv = pre @ f # post \<and> load_files env pre tr0 = (Inr u, tr1) \<and>
        isl (fst (load_file env f tr1)) \<longrightarrow>
        (case main env argv0 of
           None \<Rightarrow> False
         | Some (st, tr) \<Rightarrow>
             st = 1 \<and> st \<noteq> 0 \<and> list_all (\<lambda>e. \<not> is_device_event e) tr \<and>
             classified tr = pre @ [f] \<and> (loaded tr = pre \<or> loaded tr = pre @ [f]))) \<and>
     (\<forall>f tr. isl (fst (load_file env f tr)) =
        (fails_to_classify env f tr \<or> fails_to_load env f tr \<or> not_yet_supported env f tr)) \<and>
     (\<forall>f. f \<in> set (drop 2 argv) \<and>
          (\<forall>tr. fails_to_classify env f tr \<or> fails_to_load env f tr \<or>
                not_yet_supported env f tr) \<longrightarrow>
        (case main env argv0 of
           None \<Rightarrow> False
         | Some (st, tr) \<Rightarrow>
             st = 1 \<and> st \<noteq> 0 \<and> list_all (\<lambda>e. \<not> is_device_event e) tr \<and>
             (\<exists>pre g post.
                drop 2 argv = pre @ g # post \<and> classified tr = pre @ [g] \<and>
                (loaded tr = pre \<or> loaded tr = pre @ [g]))))"
proof (intro conjI allI impI)
  fix pre f post u tr1
  assume "drop 2 argv = pre @ f # post \<and> load_files env pre tr0 = (Inr u, tr1) \<and>
        isl (fst (load_file env f tr1))"
  then show "case main env argv0 of
           None \<Rightarrow> False
         | Some (st, tr) \<Rightarrow>
             st = 1 \<and> st \<noteq> 0 \<and> list_all (\<lambda>e. \<not> is_device_event e) tr \<and>
             classified tr = pre @ [f] \<and> (loaded tr = pre \<or> loaded tr = pre @ [f])"
    using main_first_failure[OF assms] by blast
next
  fix f tr
  show "isl (fst (load_file env f tr)) =
        (fails_to_classify env f tr \<or> fails_to_load env f tr \<or> not_yet_supported env f tr)"
    by (rule load_file_ends_run_iff)
next
  fix f
  assume a: "f \<in> set (drop 2 argv) \<and>
          (\<forall>tr. fails_to_classify env f tr \<or> fails_to_load env f tr \<or>
                not_yet_supported env f tr)"
  then have "\<forall>tr. isl (fst (load_file env f tr))" by (simp add: load_file_ends_run_iff)
  from load_files_member_fails[OF conjunct1[OF a] this, of tr0]
  obtain e tr2 where "load_files env (drop 2 argv) tr0 = (Inl e, tr2)" by blast
  from load_files_first_failure[OF this] obtain pre g post u tr1 where
    d: "drop 2 argv = pre @ g # post" "load_files env pre tr0 = (Inr u, tr1)"
       "load_file env g tr1 = (Inl e, tr2)" by blast
  then have "isl (fst (load_file env g tr1))" by simp
  from main_first_failure[OF assms d(1,2) this] d(1)
  show "case main env argv0 of
           None \<Rightarrow> False
         | Some (st, tr) \<Rightarrow>
             st = 1 \<and> st \<noteq> 0 \<and> list_all (\<lambda>e. \<not> is_device_event e) tr \<and>
             (\<exists>pre g post.
                drop 2 argv = pre @ g # post \<and> classified tr = pre @ [g] \<and>
                (loaded tr = pre \<or> loaded tr = pre @ [g]))"
    by (auto split: option.splits)
qed

theorem failing_file_stops_the_run_witness:
  "(case main sample_env [''qdl'', ''prog.mbn'', ''rawprogram0.xml'', ''missing.xml'', ''patch0.xml''] of
      None \<Rightarrow> False
    | Some (st, tr) \<Rightarrow>
        st = 1 \<and> list_all (\<lambda>e. \<not> is_device_event e) tr \<and>
        classified tr = [''rawprogram0.xml'', ''missing.xml''] \<and>
        (loaded tr = [''rawprogram0.xml''] \<or> loaded tr = [''rawprogram0.xml'', ''missing.xml''])) \<and>
   fails_to_classify sample_env ''missing.xml''
     [Xml_read_file ''rawprogram0.xml'', Xml_free_doc, Program_load ''rawprogram0.xml''] \<and>
   (case main sample_env [''qdl'', ''prog.mbn'', ''contents.xml'', ''missing.xml''] of
      None \<Rightarrow> False
    | Some (st, tr) \<Rightarrow>
        st = 1 \<and> list_all (\<lambda>e. \<not> is_device_event e) tr \<and>
        classified tr = [''contents.xml''] \<and>
        (loaded tr = [] \<or> loaded tr = [''contents.xml''])) \<and>
   not_yet_supported sample_env ''contents.xml'' [] \<and>
   ''missing.xml'' \<in> set (drop 2 [''qdl'', ''prog.mbn'', ''contents.xml'', ''missing.xml'']) \<and>
   map_option fst (main sample_env [''qdl'', ''prog.mbn'', ''contents.xml'', ''missing.xml'']) = Some 1"
proof -
  let ?a1 = "[''qdl'', ''prog.mbn'', ''rawprogram0.xml'', ''missing.xml'', ''patch0.xml'']"
  let ?a2 = "[''qdl'', ''prog.mbn'', ''contents.xml'', ''missing.xml'']"
  let ?T = "[Xml_read_file ''rawprogram0.xml'', Xml_free_doc, Program_load ''rawprogram0.xml'']"
  have sk1: "skip_debug ?a1 = (?a1, [])" by (simp add: skip_debug_def)
  have sk2: "skip_debug ?a2 = (?a2, [])" by (simp add: skip_debug_def)
  note t1 = failing_file_stops_the_run[OF sk1, of sample_env]
  note t2 = failing_file_stops_the_run[OF sk2, of sample_env]
  have always: "\<forall>tr. fails_to_classify sample_env ''missing.xml'' tr \<or>
      fails_to_load sample_env ''missing.xml'' tr \<or> not_yet_supported sample_env ''missing.xml'' tr"
    by (simp add: fails_to_classify_def sample_env_def sample_xml_def)
  have fl: "fails_to_classify sample_env ''missing.xml'' ?T"
    by (simp add: fails_to_classify_def sample_env_def sample_xml_def)
  have ns: "not_yet_supported sample_env ''contents.xml'' []"
    by (simp add: not_yet_supported_def sample_env_def sample_xml_def)
  from t1 fl have i1: "isl (fst (load_file sample_env ''missing.xml'' ?T))" by blast
  from t2 ns have i2: "isl (fst (load_file sample_env ''contents.xml'' []))" by blast
  have d1: "drop 2 ?a1 = [''rawprogram0.xml''] @ ''missing.xml'' # [''patch0.xml'']" by simp
  have d2: "drop 2 ?a2 = [] @ ''contents.xml'' # [''missing.xml'']" by simp
  have l2: "load_files sample_env [] [] = (Inr (), [])" by simp
  have m: "''missing.xml'' \<in> set (drop 2 ?a2)" by simp
  from conjunct1[OF t1, rule_format, of "[''rawprogram0.xml'']" "''missing.xml''" "[''patch0.xml'']" "()" ?T]
    d1 sample_load_rawprogram i1
  have c1: "case main sample_env ?a1 of
      None \<Rightarrow> False
    | Some (st, tr) \<Rightarrow>
        st = 1 \<and> st \<noteq> 0 \<and> list_all (\<lambda>e. \<not> is_device_event e) tr \<and>
        classified tr = [''rawprogram0.xml''] @ [''missing.xml''] \<and>
        (loaded tr = [''rawprogram0.xml''] \<or> loaded tr = [''rawprogram0.xml''] @ [''missing.xml''])"
    by blast
  from conjunct1[OF t2, rule_format, of "[]" "''contents.xml''" "[''missing.xml'']" "()" "[]"]
    d2 l2 i2
  have c2: "case main sample_env ?a2 of
      None \<Rightarrow> False
    | Some (st, tr) \<Rightarrow>
        st = 1 \<and> st \<noteq> 0 \<and> list_all (\<lambda>e. \<not> is_device_event e) tr \<and>
        classified tr = [] @ [''contents.xml''] \<and>
        (loaded tr = [] \<or> loaded tr = [] @ [''contents.xml''])"
    by blast
  from conjunct2[OF conjunct2[OF t2], rule_format, of "''missing.xml''"] m always
  have c3: "case main sample_env ?a2 of
           None \<Rightarrow> False
         | Some (st, tr) \<Rightarrow>
             st = 1 \<and> st \<noteq> 0 \<and> list_all (\<lambda>e. \<not> is_device_event e) tr \<and>
             (\<exists>pre g post.
                drop 2 ?a2 = pre @ g # post \<and> classified tr = pre @ [g] \<and>
                (loaded tr = pre \<or> loaded tr = pre @ [g]))"
    by blast
  then have s3: "map_option fst (main sample_env ?a2) = Some 1"
    by (auto split: option.splits)
  from c1 c2 s3 fl ns m show ?thesis
    by (simp split: option.splits prod.splits)
qed

subsection \<open>After the acquisition\<close>

text \<open>
  C1. Once every descriptor file has been classified and loaded and \<open>tty_open\<close> has
  returned the transport, \<open>main\<close> ends with exit status 0. Nothing is assumed about
  what \<open>sahara_run\<close> and \<open>firehose_run\<close> return: the status is 0 also when either
  of them reports failure.
\<close>

theorem exit_status_zero_once_acquired:
  assumes "acquisition env argv0 = Some (fd, tios, tr2)"
  shows "map_option fst (main env argv0) = Some 0"
  using main_after_acquisition[OF assms] by (simp add: run_and_restore_eq)

theorem exit_status_zero_once_acquired_witness:
  "acquisition failing_env sample_argv = Some (3, tios_cooked, sample_acquired) \<and>
   sahara_run failing_env sample_acquired 3 ''prog.mbn'' < 0 \<and>
   map_option fst (main failing_env sample_argv) = Some 0"
  using exit_status_zero_once_acquired[OF failing_acquisition] failing_acquisition
    failing_handshake
  by simp

text \<open>
  C7. When the transport has been acquired and \<open>sahara_run\<close> returns a negative value,
  the run consists of the trace up to the acquisition, the call of \<open>sahara_run\<close>, the
  \<open>tcsetattr\<close> that re-applies the saved configuration (with a warning when it fails)
  and the \<open>close\<close>; \<open>firehose_run\<close> is called nowhere in the run.
\<close>

theorem handshake_failure_skips_commands:
  assumes "acquisition env argv0 = Some (fd, tios, tr2)"
    and "sahara_run env tr2 fd (prog_mbn_of argv0) < 0"
  shows "case main env argv0 of
           None \<Rightarrow> False
         | Some (st, tr) \<Rightarrow>
             (\<forall>fd'. Firehose_run fd' \<notin> set tr) \<and>
             tr = tr2 @ [Sahara_run fd (prog_mbn_of argv0), Tcsetattr fd tios] @
                  (if sys_tcsetattr env (tr2 @ [Sahara_run fd (prog_mbn_of argv0)]) fd tios < 0
                   then [Warn ''unable to restore tios of ttyUSB1''] else []) @
                  [Close fd]"
  using main_after_acquisition[OF assms(1)] assms(2) acquisition_trace[OF assms(1)]
  by (simp add: run_and_restore_eq)

theorem handshake_failure_skips_commands_witness:
  "sahara_run failing_env sample_acquired 3 (prog_mbn_of sample_argv) < 0 \<and>
   (case main failing_env sample_argv of
      None \<Rightarrow> False
    | Some (st, tr) \<Rightarrow>
        (\<forall>fd'. Firehose_run fd' \<notin> set tr) \<and>
        tr = sample_acquired @
             [Sahara_run 3 ''prog.mbn'', Tcsetattr 3 tios_cooked,
              Warn ''unable to restore tios of ttyUSB1'', Close 3])"
  using handshake_failure_skips_commands[OF failing_acquisition failing_handshake]
    failing_handshake[of sample_acquired 3 "prog_mbn_of sample_argv"]
    failing_restore[of "[Sahara_run 3 ''prog.mbn'']" 3 tios_cooked]
  by (simp add: prog_mbn_of_def skip_debug_def sample_argv_def split: option.splits prod.splits)

text \<open>
  C2. Take a run of \<open>main\<close> that ends. If \<open>tty_open\<close> returned in it, with descriptor
  \<open>fd\<close> and saved configuration \<open>tios\<close> (what \<open>tcgetattr\<close> delivered before the new
  configuration was installed), then after that moment the run calls \<open>tcsetattr\<close>
  exactly once, with \<open>fd\<close> and \<open>tios\<close>, and \<open>close\<close> exactly once, on \<open>fd\<close>, as
  its last call; a negative return of that \<open>tcsetattr\<close> adds a warning and nothing else,
  and the exit status is 0 either way. Over the whole run the \<open>tcsetattr\<close> calls are the
  installing one and the restoring one. If \<open>tty_open\<close> did not return, the run has no
  \<open>tcsetattr\<close> call at all or ends with the failed installing call and its \<open>err\<close>:
  nothing is restored.
\<close>

theorem transport_restored_exactly_once:
  assumes "main env argv0 = Some (st, tr)"
  shows "case acquisition env argv0 of
           Some (fd, tios, tr2) \<Rightarrow>
             st = 0 \<and>
             (\<exists>tq. tr2 = tq @ [Tcgetattr fd, Tcflush fd, Tcsetattr fd tios_new] \<and>
                   tios = snd (sys_tcgetattr env tq fd)) \<and>
             (\<exists>mid. tr = tr2 @ mid @ [Tcsetattr fd tios] @
                          (if sys_tcsetattr env (tr2 @ mid) fd tios < 0
                           then [Warn ''unable to restore tios of ttyUSB1''] else []) @
                          [Close fd] \<and>
                    list_all (\<lambda>e. \<not> is_restore_event e) mid) \<and>
             filter is_restore_event (drop (length tr2) tr) = [Tcsetattr fd tios, Close fd] \<and>
             tcsetattrs tr = [(fd, tios_new), (fd, tios)]
         | None \<Rightarrow> st = 1 \<and> failed_before_restore tr"
proof (cases "acquisition env argv0")
  case None
  from main_without_acquisition[OF None assms] None show ?thesis by simp
next
  case (Some a)
  obtain fd tios tr2 where a: "a = (fd, tios, tr2)" by (cases a)
  note acq = Some[unfolded a]
  let ?p = "prog_mbn_of argv0"
  let ?mid = "if sahara_run env tr2 fd ?p < 0 then [Sahara_run fd ?p]
              else [Sahara_run fd ?p, Firehose_run fd]"
  let ?w = "if sys_tcsetattr env (tr2 @ ?mid) fd tios < 0
            then [Warn ''unable to restore tios of ttyUSB1''] else []"
  from main_after_acquisition[OF acq] assms
  have st: "st = 0" and tr: "tr = tr2 @ ?mid @ [Tcsetattr fd tios] @ ?w @ [Close fd]"
    by (simp_all add: run_and_restore_eq)
  from acquisition_trace[OF acq] have tc2: "tcsetattrs tr2 = [(fd, tios_new)]"
    and sv: "\<exists>tq. tr2 = tq @ [Tcgetattr fd, Tcflush fd, Tcsetattr fd tios_new] \<and>
                   tios = snd (sys_tcgetattr env tq fd)"
    by simp_all
  have mid: "list_all (\<lambda>e. \<not> is_restore_event e) ?mid" by simp
  have ex: "\<exists>mid. tr = tr2 @ mid @ [Tcsetattr fd tios] @
                          (if sys_tcsetattr env (tr2 @ mid) fd tios < 0
                           then [Warn ''unable to restore tios of ttyUSB1''] else []) @
                          [Close fd] \<and>
                    list_all (\<lambda>e. \<not> is_restore_event e) mid"
    using tr mid by blast
  have fl: "filter is_restore_event (drop (length tr2) tr) = [Tcsetattr fd tios, Close fd]"
    by (subst tr) simp
  have tc: "tcsetattrs tr = [(fd, tios_new), (fd, tios)]"
    by (subst tr) (simp add: tcsetattrs_append tc2)
  from st sv ex fl tc show ?thesis
    unfolding acq by simp
qed

theorem transport_restored_exactly_once_witness:
  "main failing_env sample_argv =
     Some (0, sample_acquired @
              [Sahara_run 3 ''prog.mbn'', Tcsetattr 3 tios_cooked,
               Warn ''unable to restore tios of ttyUSB1'', Close 3]) \<and>
   filter is_restore_event
     (drop (length sample_acquired)
        (sample_acquired @
         [Sahara_run 3 ''prog.mbn'', Tcsetattr 3 tios_cooked,
          Warn ''unable to restore tios of ttyUSB1'', Close 3])) =
     [Tcsetattr 3 tios_cooked, Close 3] \<and>
   tcsetattrs (sample_acquired @
         [Sahara_run 3 ''prog.mbn'', Tcsetattr 3 tios_cooked,
          Warn ''unable to restore tios of ttyUSB1'', Close 3]) =
     [(3, tios_new), (3, tios_cooked)] \<and>
   main closed_env sample_argv =
     Some (1, sample_loaded @ [Open_path ''/sys/class/tty'' [O_DIRECTORY],
                               Err 1 ''failed to open /sys/class/tty'']) \<and>
   failed_before_restore
     (sample_loaded @ [Open_path ''/sys/class/tty'' [O_DIRECTORY],
                       Err 1 ''failed to open /sys/class/tty''])"
  using transport_restored_exactly_once[OF failing_run]
    transport_restored_exactly_once[OF closed_run] failing_run closed_run
  by (simp add: failing_acquisition closed_acquisition)

text \<open>
  C10. \<open>tty_open\<close> has three outcomes: it never returns (\<open>None\<close>), it ends the process
  with status 1, or it returns a descriptor, and a descriptor it returns is never
  negative. So no run of \<open>main\<close> reaches the \<open>err\<close> call that follows
  \<open>fd < 0\<close>: its message occurs in no trace.
\<close>

theorem tty_open_never_negative:
  "(\<forall>fd old tr'. tty_open env tr = Some (Inr (fd, old), tr') \<longrightarrow> 0 \<le> fd) \<and>
   (\<forall>e tr'. tty_open env tr = Some (Inl e, tr') \<longrightarrow> e = Exit 1) \<and>
   (\<forall>st trm. main env argv0 = Some (st, trm) \<longrightarrow>
      Err 1 ''failed to open QDL tty'' \<notin> set trm)"
proof (intro conjI allI impI)
  fix fd old tr'
  assume "tty_open env tr = Some (Inr (fd, old), tr')"
  from tty_open_trace[OF this] show "0 \<le> fd" by auto
next
  fix e tr'
  assume "tty_open env tr = Some (Inl e, tr')"
  from tty_open_trace[OF this] show "e = Exit 1" by auto
next
  fix st trm
  assume m: "main env argv0 = Some (st, trm)"
  show "Err 1 ''failed to open QDL tty'' \<notin> set trm"
  proof (cases "acquisition env argv0")
    case None
    from main_without_acquisition[OF None m] show ?thesis by simp
  next
    case (Some a)
    obtain fd tios tr2 where a: "a = (fd, tios, tr2)" by (cases a)
    note acq = Some[unfolded a]
    from acquisition_trace[OF acq] have "Err 1 ''failed to open QDL tty'' \<notin> set tr2" by simp
    moreover from main_after_acquisition[OF acq] m
    have "trm = snd (run_and_restore env fd tios (prog_mbn_of argv0) tr2)"
      by (metis option.inject snd_conv)
    ultimately show ?thesis by (simp add: run_and_restore_eq)
  qed
qed

theorem tty_open_never_negative_witness:
  "tty_open failing_env sample_loaded = Some (Inr (3, tios_cooked), sample_acquired) \<and>
   (0::int) \<le> 3 \<and>
   tty_open closed_env sample_loaded =
     Some (Inl (Exit 1), sample_loaded @ [Open_path ''/sys/class/tty'' [O_DIRECTORY],
                                          Err 1 ''failed to open /sys/class/tty'']) \<and>
   main failing_env sample_argv =
     Some (0, sample_acquired @
              [Sahara_run 3 ''prog.mbn'', Tcsetattr 3 tios_cooked,
               Warn ''unable to restore tios of ttyUSB1'', Close 3]) \<and>
   Err 1 ''failed to open QDL tty'' \<notin>
     set (sample_acquired @
          [Sahara_run 3 ''prog.mbn'', Tcsetattr 3 tios_cooked,
           Warn ''unable to restore tios of ttyUSB1'', Close 3])"
proof -
  note th = tty_open_never_negative[of failing_env sample_loaded sample_argv]
  from th failing_tty_open have p1: "(0::int) \<le> 3" by blast
  from th failing_run have p2: "Err 1 ''failed to open QDL tty'' \<notin>
     set (sample_acquired @
          [Sahara_run 3 ''prog.mbn'', Tcsetattr 3 tios_cooked,
           Warn ''unable to restore tios of ttyUSB1'', Close 3])" by blast
  from p1 p2 failing_tty_open closed_tty_open[of sample_loaded] failing_run
  show ?thesis by blast
qed

subsection \<open>Waiting for the device\<close>



subsection \<open>The device scan\<close>

lemma snprintf_dev_fits:
  "length d + 5 < len \<Longrightarrow> snprintf_dev len d old = ''/dev/'' @ d"
  by (simp add: snprintf_dev_def)

text \<open>
  C3. Once \<open>/sys/class/tty\<close> is open, \<open>find_qdl_tty\<close> reads every entry of the
  directory, whatever it finds on the way. It returns \<open>-ENOENT\<close> and leaves the
  caller's buffer alone when no entry is a matching candidate; otherwise it returns 0 and
  the buffer holds the device path of the last matching candidate in the order of
  enumeration, which is \<open>/dev/\<close> followed by the entry name when that fits. An entry
  that is not a matching candidate changes neither \<open>found\<close> nor the buffer, so it does
  not undo an earlier match.
\<close>

theorem last_match_wins:
  assumes "0 \<le> sys_open env tr ''/sys/class/tty'' [O_DIRECTORY]"
    and "sys_fdopendir env (tr @ [Open_path ''/sys/class/tty'' [O_DIRECTORY]])
           (sys_open env tr ''/sys/class/tty'' [O_DIRECTORY]) = Some ds"
  shows
    "fst (find_qdl_tty env p len tr) =
       Inr (let ms = scan_matches env (sys_open env tr ''/sys/class/tty'' [O_DIRECTORY]) len ds
                       (scan_state0 env p)
                       (tr @ [Open_path ''/sys/class/tty'' [O_DIRECTORY],
                              Fdopendir (sys_open env tr ''/sys/class/tty'' [O_DIRECTORY])])
            in if ms = [] then (- ENOENT, p) else (0, snprintf_dev len (last ms) p)) \<and>
     visited (snd (find_qdl_tty env p len tr)) = visited tr @ ds \<and>
     (\<forall>d. length d + 5 < len \<longrightarrow> snprintf_dev len d p = ''/dev/'' @ d) \<and>
     (\<forall>tty d s t. \<not> candidate_matches env tty d t \<longrightarrow>
        found (fst (find_qdl_tty_body env tty len d s t)) = found s \<and>
        dev_name (fst (find_qdl_tty_body env tty len d s t)) = dev_name s)"
proof -
  from find_qdl_tty_scanned[OF assms, of p len] obtain new where
    n: "find_qdl_tty env p len tr =
          (Inr (let ms = scan_matches env (sys_open env tr ''/sys/class/tty'' [O_DIRECTORY]) len ds
                       (scan_state0 env p)
                       (tr @ [Open_path ''/sys/class/tty'' [O_DIRECTORY],
                              Fdopendir (sys_open env tr ''/sys/class/tty'' [O_DIRECTORY])])
            in if ms = [] then (- ENOENT, p) else (0, snprintf_dev len (last ms) p)),
           tr @ new)"
       "visited new = ds"
    by blast
  have b: "\<And>tty d s t. \<not> candidate_matches env tty d t \<Longrightarrow>
        found (fst (find_qdl_tty_body env tty len d s t)) = found s \<and>
        dev_name (fst (find_qdl_tty_body env tty len d s t)) = dev_name s"
  proof -
    fix tty d s t
    assume nm: "\<not> candidate_matches env tty d t"
    obtain s' t' where "find_qdl_tty_body env tty len d s t = (s', t')" by (metis surj_pair)
    from body_result[OF this] nm this
    show "found (fst (find_qdl_tty_body env tty len d s t)) = found s \<and>
        dev_name (fst (find_qdl_tty_body env tty len d s t)) = dev_name s"
      by simp
  qed
  from n b show ?thesis
    by (simp add: visited_append snprintf_dev_fits)
qed

lemma sample_matches:
  "scan_matches sample_env 3 PATH_MAX [''ttyS0'', ''ttyUSB0'', ''ttyUSB1'', ''ttyUSB2'', ''ttyUSB3'']
     (scan_state0 sample_env p)
     (tr @ [Open_path ''/sys/class/tty'' [O_DIRECTORY], Fdopendir 3]) =
   [''ttyUSB1'', ''ttyUSB2'']"
  by (simp add: sample_simps candidate_matches_def attr_token_def after_attr_def scan_state0_def)

theorem last_match_wins_witness:
  "fst (find_qdl_tty sample_env [] PATH_MAX []) = Inr (0, ''/dev/ttyUSB2'') \<and>
   visited (snd (find_qdl_tty sample_env [] PATH_MAX [])) =
     [''ttyS0'', ''ttyUSB0'', ''ttyUSB1'', ''ttyUSB2'', ''ttyUSB3''] \<and>
   \<not> candidate_matches sample_env 3 ''ttyUSB3''
       [Open_path ''/sys/class/tty'' [O_DIRECTORY], Fdopendir 3] \<and>
   found (fst (find_qdl_tty_body sample_env 3 PATH_MAX ''ttyUSB3''
                 \<lparr>found = 0, dev_name = ''/dev/ttyUSB2'', vid = ''05c6'', pid = ''9008''\<rparr>
                 [Open_path ''/sys/class/tty'' [O_DIRECTORY], Fdopendir 3])) = 0 \<and>
   dev_name (fst (find_qdl_tty_body sample_env 3 PATH_MAX ''ttyUSB3''
                 \<lparr>found = 0, dev_name = ''/dev/ttyUSB2'', vid = ''05c6'', pid = ''9008''\<rparr>
                 [Open_path ''/sys/class/tty'' [O_DIRECTORY], Fdopendir 3])) = ''/dev/ttyUSB2''"
proof -
  have o: "0 \<le> sys_open sample_env [] ''/sys/class/tty'' [O_DIRECTORY]"
    by (simp add: sample_env_def)
  have d: "sys_fdopendir sample_env ([] @ [Open_path ''/sys/class/tty'' [O_DIRECTORY]])
           (sys_open sample_env [] ''/sys/class/tty'' [O_DIRECTORY]) =
           Some [''ttyS0'', ''ttyUSB0'', ''ttyUSB1'', ''ttyUSB2'', ''ttyUSB3'']"
    by (simp add: sample_env_def)
  have t: "sys_open sample_env [] ''/sys/class/tty'' [O_DIRECTORY] = 3"
    by (simp add: sample_env_def)
  have nm: "\<not> candidate_matches sample_env 3 ''ttyUSB3''
       [Open_path ''/sys/class/tty'' [O_DIRECTORY], Fdopendir 3]"
    by (simp add: candidate_matches_def attr_token_def sample_env_def sample_openat_def)
  note th = last_match_wins[OF o d, of "[]" PATH_MAX, unfolded t]
  from th nm sample_matches[of "[]" "[]"] show ?thesis
    by (simp add: snprintf_dev_def PATH_MAX_def)
qed

lemma token_of_line:
  assumes "length c \<le> 4" and "NL \<notin> set c" and "NUL \<notin> set c"
  shows "takeWhile (\<lambda>x. x \<noteq> NL \<and> x \<noteq> NUL) (take 4 (c @ NL # rest)) = c"
proof -
  have "take 4 (c @ NL # rest) = c @ take (4 - length c) (NL # rest)"
    using assms(1) by simp
  moreover have "takeWhile (\<lambda>x. x \<noteq> NL \<and> x \<noteq> NUL) (c @ take (4 - length c) (NL # rest)) = c"
  proof (cases "4 - length c")
    case 0
    with assms show ?thesis by (auto simp: takeWhile_eq_all_conv)
  next
    case (Suc k)
    then have "take (4 - length c) (NL # rest) = NL # take k rest" by simp
    moreover have "\<forall>x\<in>set c. x \<noteq> NL \<and> x \<noteq> NUL" using assms by auto
    ultimately show ?thesis by (simp add: takeWhile_append2)
  qed
  ultimately show ?thesis by simp
qed

lemma attr_token_of_line:
  assumes "0 \<le> sys_openat env t dir nm [O_RDONLY]"
    and "sys_read env (t @ [Openat dir nm [O_RDONLY]]) (sys_openat env t dir nm [O_RDONLY]) 4 =
           Some (c @ NL # rest)"
    and "length c \<le> 4" and "NL \<notin> set c" and "NUL \<notin> set c"
  shows "attr_token env dir nm t = Some c"
  using assms token_of_line[OF assms(3-5), of rest] by (simp add: attr_token_def)

text \<open>
  C4. The loop body accepts the entry \<open>d\<close> (sets \<open>found\<close> to 0 and writes its device
  path) exactly when \<open>d\<close> is a matching candidate: its name starts with \<open>ttyUSB\<close>,
  its directory opens, and the tokens read from its vendor and product files are the
  strings \<open>05c6\<close> and \<open>9008\<close>, compared as they are. The token of a file is
  what the five-byte buffer holds after \<open>readat\<close>: of the first four bytes, those
  before the first line feed or \<open>NUL\<close>; for a file that starts with a line of at most
  four bytes it is that line. \<open>readat\<close> returns a negative value when the file cannot
  be opened or read. Every other entry leaves \<open>found\<close> and the path as they were, and
  the scan goes on: \<open>find_qdl_tty\<close> ends the process only when the directory itself
  cannot be opened.
\<close>

theorem candidate_accepted_iff_ids_match:
  "(candidate_matches env tty d tr \<longrightarrow>
      found (fst (find_qdl_tty_body env tty len d s tr)) = 0 \<and>
      dev_name (fst (find_qdl_tty_body env tty len d s tr)) = snprintf_dev len d (dev_name s)) \<and>
   (\<not> candidate_matches env tty d tr \<longrightarrow>
      found (fst (find_qdl_tty_body env tty len d s tr)) = found s \<and>
      dev_name (fst (find_qdl_tty_body env tty len d s tr)) = dev_name s) \<and>
   (found s \<noteq> 0 \<longrightarrow>
      (found (fst (find_qdl_tty_body env tty len d s tr)) = 0) = candidate_matches env tty d tr) \<and>
   (\<forall>dir nm buf t.
      case attr_token env dir nm t of
        Some tok \<Rightarrow> fst (readat env dir nm buf 5 t) = (0, tok)
      | None \<Rightarrow> fst (fst (readat env dir nm buf 5 t)) < 0) \<and>
   (\<forall>dir nm t c rest.
      0 \<le> sys_openat env t dir nm [O_RDONLY] \<and>
      sys_read env (t @ [Openat dir nm [O_RDONLY]]) (sys_openat env t dir nm [O_RDONLY]) 4 =
        Some (c @ NL # rest) \<and>
      length c \<le> 4 \<and> NL \<notin> set c \<and> NUL \<notin> set c \<longrightarrow>
      attr_token env dir nm t = Some c) \<and>
   (\<forall>p t e. fst (find_qdl_tty env p len t) = Inl e \<longrightarrow>
      sys_open env t ''/sys/class/tty'' [O_DIRECTORY] < 0 \<or>
      sys_fdopendir env (t @ [Open_path ''/sys/class/tty'' [O_DIRECTORY]])
        (sys_open env t ''/sys/class/tty'' [O_DIRECTORY]) = None)"
proof -
  obtain s' t' where b: "find_qdl_tty_body env tty len d s tr = (s', t')" by (metis surj_pair)
  note r = body_result[OF b]
  have p1: "candidate_matches env tty d tr \<longrightarrow>
      found (fst (find_qdl_tty_body env tty len d s tr)) = 0 \<and>
      dev_name (fst (find_qdl_tty_body env tty len d s tr)) = snprintf_dev len d (dev_name s)"
    using r b by simp
  have p2: "\<not> candidate_matches env tty d tr \<longrightarrow>
      found (fst (find_qdl_tty_body env tty len d s tr)) = found s \<and>
      dev_name (fst (find_qdl_tty_body env tty len d s tr)) = dev_name s"
    using r b by simp
  have p3: "found s \<noteq> 0 \<longrightarrow>
      (found (fst (find_qdl_tty_body env tty len d s tr)) = 0) = candidate_matches env tty d tr"
    using r b by (cases "candidate_matches env tty d tr") simp_all
  have p4: "\<forall>dir nm buf t.
      case attr_token env dir nm t of
        Some tok \<Rightarrow> fst (readat env dir nm buf 5 t) = (0, tok)
      | None \<Rightarrow> fst (fst (readat env dir nm buf 5 t)) < 0"
  proof (intro allI)
    fix dir nm buf t
    show "case attr_token env dir nm t of
        Some tok \<Rightarrow> fst (readat env dir nm buf 5 t) = (0, tok)
      | None \<Rightarrow> fst (fst (readat env dir nm buf 5 t)) < 0"
      using readat_token_None[of env dir nm t buf] readat_token_Some[of env dir nm t _ buf]
      by (cases "attr_token env dir nm t") simp_all
  qed
  have p5: "\<forall>p t e. fst (find_qdl_tty env p len t) = Inl e \<longrightarrow>
      sys_open env t ''/sys/class/tty'' [O_DIRECTORY] < 0 \<or>
      sys_fdopendir env (t @ [Open_path ''/sys/class/tty'' [O_DIRECTORY]])
        (sys_open env t ''/sys/class/tty'' [O_DIRECTORY]) = None"
  proof (intro allI impI)
    fix p t e
    assume l: "fst (find_qdl_tty env p len t) = Inl e"
    show "sys_open env t ''/sys/class/tty'' [O_DIRECTORY] < 0 \<or>
      sys_fdopendir env (t @ [Open_path ''/sys/class/tty'' [O_DIRECTORY]])
        (sys_open env t ''/sys/class/tty'' [O_DIRECTORY]) = None"
    proof (rule ccontr)
      assume "\<not> ?thesis"
      then obtain ds where o: "0 \<le> sys_open env t ''/sys/class/tty'' [O_DIRECTORY]"
        and f: "sys_fdopendir env (t @ [Open_path ''/sys/class/tty'' [O_DIRECTORY]])
                  (sys_open env t ''/sys/class/tty'' [O_DIRECTORY]) = Some ds"
        by auto
      from find_qdl_tty_scanned[OF o f, of p len] l show False by auto
    qed
  qed
  have p6: "\<forall>dir nm t c rest.
      0 \<le> sys_openat env t dir nm [O_RDONLY] \<and>
      sys_read env (t @ [Openat dir nm [O_RDONLY]]) (sys_openat env t dir nm [O_RDONLY]) 4 =
        Some (c @ NL # rest) \<and>
      length c \<le> 4 \<and> NL \<notin> set c \<and> NUL \<notin> set c \<longrightarrow>
      attr_token env dir nm t = Some c"
    using attr_token_of_line by blast
  from p1 p2 p3 p4 p5 p6 show ?thesis by blast
qed

text \<open>A world whose second download-mode device reports its vendor in upper case.\<close>

lemma upper_case_no_match:
  "\<not> candidate_matches
       (sample_env\<lparr>sys_read := (\<lambda>tr fd n. if fd = 22 then Some (''05C6'' @ [NL])
                                            else sample_read fd)\<rparr>)
       3 ''ttyUSB2'' tr"
  by (simp add: candidate_matches_def attr_token_def after_attr_def sample_env_def
      sample_openat_def sample_read_def NL_def NUL_def)

lemma sample_candidates:
  "candidate_matches sample_env 3 ''ttyUSB2'' tr \<and> \<not> candidate_matches sample_env 3 ''ttyUSB0'' tr"
  by (simp add: candidate_matches_def attr_token_def after_attr_def sample_env_def
      sample_openat_def sample_read_def NL_def NUL_def)

theorem candidate_accepted_iff_ids_match_witness:
  "candidate_matches sample_env 3 ''ttyUSB2'' [] \<and>
   found (fst (find_qdl_tty_body sample_env 3 PATH_MAX ''ttyUSB2'' (scan_state0 sample_env []) [])) = 0 \<and>
   dev_name (fst (find_qdl_tty_body sample_env 3 PATH_MAX ''ttyUSB2'' (scan_state0 sample_env []) [])) =
     ''/dev/ttyUSB2'' \<and>
   \<not> candidate_matches sample_env 3 ''ttyUSB0'' [] \<and>
   found (fst (find_qdl_tty_body sample_env 3 PATH_MAX ''ttyUSB0'' (scan_state0 sample_env []) [])) =
     - ENOENT \<and>
   found (fst (find_qdl_tty_body
                 (sample_env\<lparr>sys_read := (\<lambda>tr fd n. if fd = 22 then Some (''05C6'' @ [NL])
                                                      else sample_read fd)\<rparr>)
                 3 PATH_MAX ''ttyUSB2'' (scan_state0 sample_env []) [])) = - ENOENT"
  using candidate_accepted_iff_ids_match[of sample_env 3 "''ttyUSB2''" "[]" PATH_MAX
      "scan_state0 sample_env []"]
    candidate_accepted_iff_ids_match[of sample_env 3 "''ttyUSB0''" "[]" PATH_MAX
      "scan_state0 sample_env []"]
    candidate_accepted_iff_ids_match[of "sample_env\<lparr>sys_read := (\<lambda>tr fd n. if fd = 22 then Some (''05C6'' @ [NL])
                                                      else sample_read fd)\<rparr>" 3 "''ttyUSB2''" "[]" PATH_MAX
      "scan_state0 sample_env []"]
    sample_candidates[of "[]"] upper_case_no_match[of "[]"]
  by (simp add: scan_state0_def snprintf_dev_def PATH_MAX_def)

end
